theory Spec2Isabelle
  imports Main
begin

section \<open>Python values used by the monitor\<close>

text \<open>
  A Python \<^verbatim>\<open>str\<close> is a sequence of Unicode code points, and \<^verbatim>\<open>len\<close> and slicing
  count code points. The monitor's literals contain Swedish letters and emoji, so a
  string is modelled as the list of its code points; \<open>asc\<close> embeds an ASCII literal.
\<close>

type_synonym pystr = "nat list"

definition asc :: "string \<Rightarrow> pystr" where
  "asc s = map of_char s"

definition nl :: pystr where
  "nl = [10]"

text \<open>\<^verbatim>\<open>str(n)\<close> for a non-negative integer, as an f-string renders \<^verbatim>\<open>{idx}\<close>.\<close>

function str_nat :: "nat \<Rightarrow> pystr" where
  "str_nat n = (if n < 10 then [48 + n] else str_nat (n div 10) @ [48 + n mod 10])"
  by pat_completeness auto
termination
  by (relation "measure (\<lambda>n. n)") auto

declare str_nat.simps [simp del]

text \<open>\<^verbatim>\<open>s.startswith(p)\<close> and the substring test \<^verbatim>\<open>sub in s\<close>.\<close>

fun startswith :: "'a list \<Rightarrow> 'a list \<Rightarrow> bool" where
  "startswith s [] = True"
| "startswith [] (p # ps) = False"
| "startswith (c # cs) (p # ps) = (c = p \<and> startswith cs ps)"

fun py_in :: "'a list \<Rightarrow> 'a list \<Rightarrow> bool" where
  "py_in sub [] = (sub = [])"
| "py_in sub (c # cs) = (startswith (c # cs) sub \<or> py_in sub cs)"

text \<open>\<^verbatim>\<open>s[:n] + "..."\<close> when \<^verbatim>\<open>len(s) > n\<close>, as both message formatters do.\<close>

definition ellipsis :: pystr where
  "ellipsis = asc ''...''"

definition truncate_text :: "nat \<Rightarrow> pystr \<Rightarrow> pystr" where
  "truncate_text n s = (if length s > n then take n s @ ellipsis else s)"

section \<open>Configuration constants\<close>

definition LINE_TO_MONITOR :: pystr where
  "LINE_TO_MONITOR = asc ''29''"

definition LINE_NAME :: pystr where
  "LINE_NAME = asc ''N'' @ [228] @ asc ''sbyparkslinjen''"

section \<open>The persisted state file\<close>

text \<open>
  All three variants keep their state in the JSON object of \<^verbatim>\<open>sl_state.json\<close>. The
  object is modelled with one optional field per key that any variant writes or reads:
  a key that is absent is \<open>None\<close>, and \<^verbatim>\<open>{}\<close> is \<open>empty_state\<close>. The values have the
  types the variants write: strings, lists of records, lists of identifiers, an integer
  count, a boolean flag.
\<close>

record 'd state_dict =
  st_timestamp :: "pystr option"
  st_disruptions :: "'d list option"
  st_alert_ids :: "pystr list option"
  st_count :: "int option"
  st_had_disruption :: "bool option"

definition empty_state :: "'d state_dict" where
  "empty_state = \<lparr>st_timestamp = None, st_disruptions = None, st_alert_ids = None,
                   st_count = None, st_had_disruption = None\<rparr>"

text \<open>
  What a read of the file meets: no file, a file that \<^verbatim>\<open>open\<close> or \<^verbatim>\<open>json.load\<close>
  raises on, or a stored object.
\<close>

datatype 'a state_file = Missing | Unreadable | Stored 'a

text \<open>
  What a write meets: success, \<^verbatim>\<open>open(STATE_FILE, "w")\<close> raising (the file is left as
  it was), or \<^verbatim>\<open>json.dump\<close> raising after the file was truncated. Both exceptions are
  caught and logged by \<^verbatim>\<open>save_state\<close>.
\<close>

datatype write_outcome = WriteOk | OpenFails | DumpFails

definition write_state_file :: "write_outcome \<Rightarrow> 'a \<Rightarrow> 'a state_file \<Rightarrow> 'a state_file" where
  "write_state_file w s old =
     (case w of WriteOk \<Rightarrow> Stored s | OpenFails \<Rightarrow> old | DumpFails \<Rightarrow> Unreadable)"

text \<open>\<^verbatim>\<open>load_previous_state\<close> of the GTFS and the simple variant.\<close>

definition load_previous_state :: "'d state_dict state_file \<Rightarrow> 'd state_dict" where
  "load_previous_state f =
     (case f of
        Missing \<Rightarrow> empty_state
      | Unreadable \<Rightarrow> empty_state
      | Stored s \<Rightarrow> s)"

section \<open>The GTFS variant\<close>

subsection \<open>The feed\<close>

record translation =
  tr_text :: pystr
  tr_language :: pystr

record entity_selector =
  route_id :: "pystr option"

record time_range =
  range_start :: "nat option"
  range_end :: "nat option"

record alert =
  informed_entity :: "entity_selector list"
  header_text :: "translation list option"
  description_text :: "translation list option"
  active_period :: "time_range list"
  alert_cause :: "int option"
  alert_effect :: "int option"

record feed_entity =
  entity_id :: pystr
  entity_alert :: "alert option"

record feed_message =
  entity :: "feed_entity list"

subsection \<open>Disruption records\<close>

record period =
  p_start :: pystr
  p_end :: pystr

record disruption =
  alert_id :: pystr
  header :: pystr
  description :: pystr
  active_periods :: "period list"
  cause :: int
  effect :: int

subsection \<open>\<^verbatim>\<open>filter_line_29\<close>\<close>

text \<open>The loop over \<^verbatim>\<open>alert.informed_entity\<close> that sets \<^verbatim>\<open>affects_line_29\<close>.\<close>

fun affects_line_29 :: "entity_selector list \<Rightarrow> bool" where
  "affects_line_29 [] = False"
| "affects_line_29 (ie # rest) =
     (case route_id ie of
        None \<Rightarrow> affects_line_29 rest
      | Some r \<Rightarrow>
          if py_in LINE_TO_MONITOR r \<or> r = LINE_TO_MONITOR then True
          else affects_line_29 rest)"

text \<open>
  The loop over the translations: a Swedish text always replaces the current one, any
  other text only while nothing was chosen yet.
\<close>

fun pick_translation :: "pystr \<Rightarrow> translation list \<Rightarrow> pystr" where
  "pick_translation chosen [] = chosen"
| "pick_translation chosen (t # ts) =
     pick_translation (if tr_language t = asc ''sv'' \<or> chosen = [] then tr_text t else chosen) ts"

datatype py_error = TimestampError | ValueError

text \<open>
  \<^verbatim>\<open>datetime.fromtimestamp(t).isoformat()\<close> depends on the local time zone and raises
  for a timestamp the platform cannot represent, so the conversion is a parameter
  \<open>isoformat\<close> with \<open>None\<close> for the raise. An absent bound becomes the empty string.
\<close>

definition convert_bound :: "(nat \<Rightarrow> pystr option) \<Rightarrow> nat option \<Rightarrow> py_error + pystr" where
  "convert_bound isoformat b =
     (case b of
        None \<Rightarrow> Inr []
      | Some t \<Rightarrow> (case isoformat t of None \<Rightarrow> Inl TimestampError | Some s \<Rightarrow> Inr s))"

fun convert_periods :: "(nat \<Rightarrow> pystr option) \<Rightarrow> time_range list \<Rightarrow> py_error + period list" where
  "convert_periods isoformat [] = Inr []"
| "convert_periods isoformat (p # ps) =
     (case convert_bound isoformat (range_start p) of
        Inl e \<Rightarrow> Inl e
      | Inr s \<Rightarrow>
          (case convert_bound isoformat (range_end p) of
             Inl e \<Rightarrow> Inl e
           | Inr e \<Rightarrow>
               (case convert_periods isoformat ps of
                  Inl err \<Rightarrow> Inl err
                | Inr rest \<Rightarrow> Inr (\<lparr>p_start = s, p_end = e\<rparr> # rest))))"

definition default_header :: pystr where
  "default_header = asc ''St'' @ [246] @ asc ''rning''"

definition make_disruption ::
  "(nat \<Rightarrow> pystr option) \<Rightarrow> feed_entity \<Rightarrow> alert \<Rightarrow> py_error + disruption" where
  "make_disruption isoformat e a =
     (let h = (case header_text a of None \<Rightarrow> [] | Some ts \<Rightarrow> pick_translation [] ts);
          d = (case description_text a of None \<Rightarrow> [] | Some ts \<Rightarrow> pick_translation [] ts)
      in case convert_periods isoformat (active_period a) of
           Inl err \<Rightarrow> Inl err
         | Inr ps \<Rightarrow>
             Inr \<lparr>alert_id = entity_id e,
                  header = (if h = [] then default_header else h),
                  description = d,
                  active_periods = ps,
                  cause = (case alert_cause a of None \<Rightarrow> 0 | Some c \<Rightarrow> c),
                  effect = (case alert_effect a of None \<Rightarrow> 0 | Some c \<Rightarrow> c)\<rparr>)"

fun filter_entities ::
  "(nat \<Rightarrow> pystr option) \<Rightarrow> feed_entity list \<Rightarrow> py_error + disruption list" where
  "filter_entities isoformat [] = Inr []"
| "filter_entities isoformat (e # es) =
     (case entity_alert e of
        None \<Rightarrow> filter_entities isoformat es
      | Some a \<Rightarrow>
          if affects_line_29 (informed_entity a) then
            (case make_disruption isoformat e a of
               Inl err \<Rightarrow> Inl err
             | Inr d \<Rightarrow>
                 (case filter_entities isoformat es of
                    Inl err \<Rightarrow> Inl err
                  | Inr ds \<Rightarrow> Inr (d # ds)))
          else filter_entities isoformat es)"

definition filter_line_29 ::
  "(nat \<Rightarrow> pystr option) \<Rightarrow> feed_message option \<Rightarrow> py_error + disruption list" where
  "filter_line_29 isoformat feed =
     (case feed of None \<Rightarrow> Inr [] | Some f \<Rightarrow> filter_entities isoformat (entity f))"

subsection \<open>\<^verbatim>\<open>save_state\<close>\<close>

text \<open>The dictionary built by \<^verbatim>\<open>save_state\<close>; \<open>now\<close> is the clock reading it takes.\<close>

definition gtfs_state :: "pystr \<Rightarrow> disruption list \<Rightarrow> disruption state_dict" where
  "gtfs_state now disruptions =
     \<lparr>st_timestamp = Some now,
      st_disruptions = Some disruptions,
      st_alert_ids = Some (map alert_id disruptions),
      st_count = None,
      st_had_disruption = None\<rparr>"

definition save_state ::
  "write_outcome \<Rightarrow> pystr \<Rightarrow> disruption list \<Rightarrow> disruption state_dict state_file
     \<Rightarrow> disruption state_dict state_file" where
  "save_state w now disruptions old = write_state_file w (gtfs_state now disruptions) old"

subsection \<open>\<^verbatim>\<open>format_disruption_message\<close> and \<^verbatim>\<open>send_notification\<close>\<close>

fun format_periods :: "period list \<Rightarrow> pystr" where
  "format_periods [] = []"
| "format_periods (p # ps) =
     (if p_start p \<noteq> [] then asc ''   Fr'' @ [229] @ asc ''n: '' @ p_start p @ nl else [])
     @ (if p_end p \<noteq> [] then asc ''   Till: '' @ p_end p @ nl else [])
     @ format_periods ps"

definition format_one :: "nat \<Rightarrow> disruption \<Rightarrow> pystr" where
  "format_one idx d =
     nl @ [128308] @ asc '' St'' @ [246] @ asc ''rning '' @ str_nat idx @ asc '':'' @ nl
     @ asc ''   '' @ header d @ nl
     @ (if description d \<noteq> [] then asc ''   '' @ truncate_text 300 (description d) @ nl else [])
     @ (if active_periods d \<noteq> [] then format_periods (active_periods d) else [])
     @ nl"

fun format_from :: "nat \<Rightarrow> disruption list \<Rightarrow> pystr \<Rightarrow> pystr" where
  "format_from idx [] message = message"
| "format_from idx (d # ds) message = format_from (Suc idx) ds (message @ format_one idx d)"

definition format_disruption_message :: "disruption list \<Rightarrow> pystr" where
  "format_disruption_message disruptions = format_from 1 disruptions []"

datatype channel = Desktop | Email

text \<open>
  The effects of one call of \<^verbatim>\<open>send_notification\<close>: the title and the body it composed
  and logged, the channels on which it attempted a delivery, and the exception it ended
  with, if any.
\<close>

record notification =
  n_title :: pystr
  n_message :: pystr
  n_channels :: "channel list"
  n_raised :: "py_error option"

text \<open>
  What \<^verbatim>\<open>send_email_notification\<close> reads from the environment. It first converts the
  port, \<^verbatim>\<open>int(os.environ.get("SMTP_PORT", "587"))\<close>, before it tests the credentials and
  outside its \<^verbatim>\<open>try\<close>: \<open>port_parses\<close> tells whether that conversion returns, and when
  it does not the \<^verbatim>\<open>ValueError\<close> leaves \<^verbatim>\<open>send_notification\<close> and \<^verbatim>\<open>run\<close>. Then it
  returns at once unless sender, recipient and password are all set; \<open>email_configured\<close>
  is that test. Only then a delivery is attempted, and whatever that raises is caught.
\<close>

record mail_env =
  port_parses :: bool
  email_configured :: bool

definition send_email_notification :: "mail_env \<Rightarrow> py_error + channel list" where
  "send_email_notification env =
     (if \<not> port_parses env then Inl ValueError
      else if \<not> email_configured env then Inr []
      else Inr [Email])"

text \<open>
  The record of a notification whose title and body were composed, which was sent on
  the channels \<open>before\<close>, and whose last step was the e-mail call with result \<open>email\<close>
  (\<open>Inr []\<close> when the call is not made).
\<close>

definition notified ::
  "pystr \<Rightarrow> pystr \<Rightarrow> channel list \<Rightarrow> py_error + channel list \<Rightarrow> notification" where
  "notified title message before email =
     (case email of
        Inl err \<Rightarrow>
          \<lparr>n_title = title, n_message = message, n_channels = before, n_raised = Some err\<rparr>
      | Inr cs \<Rightarrow>
          \<lparr>n_title = title, n_message = message, n_channels = before @ cs, n_raised = None\<rparr>)"

definition gtfs_title :: "pystr \<Rightarrow> pystr" where
  "gtfs_title notification_type =
     (if notification_type = asc ''new'' then
        [9888, 65039] @ asc '' NY st'' @ [246] @ asc ''rning p'' @ [229] @ asc '' linje ''
          @ LINE_TO_MONITOR @ asc '' ('' @ LINE_NAME @ asc '')''
      else if notification_type = asc ''updated'' then
        [128260] @ asc '' Uppdaterad st'' @ [246] @ asc ''rning p'' @ [229] @ asc '' linje ''
          @ LINE_TO_MONITOR
      else if notification_type = asc ''ongoing'' then
        [8505, 65039] @ asc '' P'' @ [229] @ asc ''g'' @ [229] @ asc ''ende st'' @ [246]
          @ asc ''rning p'' @ [229] @ asc '' linje '' @ LINE_TO_MONITOR
      else
        [9989] @ asc '' St'' @ [246] @ asc ''rning l'' @ [246] @ asc ''st p'' @ [229]
          @ asc '' linje '' @ LINE_TO_MONITOR)"

definition all_resolved_text :: pystr where
  "all_resolved_text =
     asc ''Alla st'' @ [246] @ asc ''rningar p'' @ [229] @ asc '' N'' @ [228]
       @ asc ''sbyparkslinjen har l'' @ [246] @ asc ''sts!''"

definition check_link :: pystr where
  "check_link = asc ''Kontrollera: https://sl.se/reseplanering/trafiklaget''"

definition send_notification :: "mail_env \<Rightarrow> disruption list \<Rightarrow> pystr \<Rightarrow> notification" where
  "send_notification env disruptions notification_type =
     (let title = gtfs_title notification_type;
          full_message =
            (if disruptions \<noteq> [] then
               title @ nl @ format_disruption_message disruptions @ nl @ check_link
             else title @ nl @ nl @ all_resolved_text)
      in notified title full_message [Desktop]
           (if notification_type \<in> {asc ''new'', asc ''updated''}
            then send_email_notification env else Inr []))"

subsection \<open>\<^verbatim>\<open>run\<close>\<close>

datatype transition = New | Updated | Ongoing | Resolved | NoDisruption

text \<open>
  What a cycle did: the branch it took, the records it notified about, the notification
  it sent, the exception that ended it (if any), the state it built for saving and the
  state file it left. A cycle ended by an exception never reaches \<^verbatim>\<open>save_state\<close>.
\<close>

record 'd cycle =
  transition :: transition
  relevant :: "'d list"
  sent :: "notification option"
  raised :: "py_error option"
  new_state :: "'d state_dict option"
  file_after :: "'d state_dict state_file"

definition raised_by :: "notification option \<Rightarrow> py_error option" where
  "raised_by n = (case n of None \<Rightarrow> None | Some m \<Rightarrow> n_raised m)"

definition previous_ids :: "'d state_dict state_file \<Rightarrow> pystr set" where
  "previous_ids file =
     set (case st_alert_ids (load_previous_state file) of None \<Rightarrow> [] | Some ids \<Rightarrow> ids)"

text \<open>
  The part of \<^verbatim>\<open>run\<close> after the fetch and the filter: load the previous state, compare
  the identifier sets, notify, save. The transition is the branch taken (each branch
  writes its own log line; the log file is not part of the model). When the notification
  raises, \<^verbatim>\<open>run\<close> ends there and the state is neither built nor written.
\<close>

definition reconcile ::
  "mail_env \<Rightarrow> write_outcome \<Rightarrow> pystr \<Rightarrow> disruption state_dict state_file \<Rightarrow> disruption list
     \<Rightarrow> disruption cycle" where
  "reconcile env w now file current_disruptions =
     (let current_ids = set (map alert_id current_disruptions);
          new_ids = current_ids - previous_ids file;
          resolved_ids = previous_ids file - current_ids;
          (t, rel, n) =
            (if current_disruptions \<noteq> [] then
               if new_ids \<noteq> {} then
                 (let new_disruptions = filter (\<lambda>d. alert_id d \<in> new_ids) current_disruptions
                  in (New, new_disruptions,
                      Some (send_notification env new_disruptions (asc ''new''))))
               else if resolved_ids \<noteq> {} \<and> current_ids \<noteq> {} then
                 (Updated, current_disruptions,
                  Some (send_notification env current_disruptions (asc ''updated'')))
               else (Ongoing, current_disruptions, None)
             else
               if previous_ids file \<noteq> {} then
                 (Resolved, [], Some (send_notification env [] (asc ''resolved'')))
               else (NoDisruption, [], None))
      in \<lparr>transition = t, relevant = rel, sent = n,
          raised = raised_by n,
          new_state =
            (if raised_by n = None then Some (gtfs_state now current_disruptions) else None),
          file_after =
            (if raised_by n = None then save_state w now current_disruptions file else file)\<rparr>)"

text \<open>
  The outcomes of \<^verbatim>\<open>run\<close>: the fetch failed and nothing was done; the filter raised
  before anything was done; the cycle ran to its end; the cycle was ended by an
  exception after the effects it records.
\<close>

datatype 'c run_result = FetchFailed | Raised py_error | Completed 'c | Stopped py_error 'c

definition run ::
  "(nat \<Rightarrow> pystr option) \<Rightarrow> mail_env \<Rightarrow> write_outcome \<Rightarrow> pystr
     \<Rightarrow> disruption state_dict state_file \<Rightarrow> feed_message option
     \<Rightarrow> disruption cycle run_result" where
  "run isoformat env w now file feed =
     (case feed of
        None \<Rightarrow> FetchFailed
      | Some f \<Rightarrow>
          (case filter_line_29 isoformat (Some f) of
             Inl err \<Rightarrow> Raised err
           | Inr current_disruptions \<Rightarrow>
               (let c = reconcile env w now file current_disruptions
                in case raised c of None \<Rightarrow> Completed c | Some err \<Rightarrow> Stopped err c)))"

section \<open>The simple variant\<close>

text \<open>
  The records built by the simple variant's \<^verbatim>\<open>filter_line_29\<close> carry no identifier.
  Every record it builds has the keys \<^verbatim>\<open>header\<close> and \<^verbatim>\<open>details\<close>, so
  \<^verbatim>\<open>d.get('header', ...)\<close> is the stored header; the severity is absent in the record
  built from the scraped page.
\<close>

record simple_disruption =
  s_header :: pystr
  s_details :: pystr
  s_severity :: "int option"
  s_timestamp :: pystr

definition simple_state :: "pystr \<Rightarrow> simple_disruption list \<Rightarrow> simple_disruption state_dict" where
  "simple_state now disruptions =
     \<lparr>st_timestamp = Some now,
      st_disruptions = Some disruptions,
      st_alert_ids = None,
      st_count = Some (int (length disruptions)),
      st_had_disruption = None\<rparr>"

definition simple_save_state ::
  "write_outcome \<Rightarrow> pystr \<Rightarrow> simple_disruption list \<Rightarrow> simple_disruption state_dict state_file
     \<Rightarrow> simple_disruption state_dict state_file" where
  "simple_save_state w now disruptions old = write_state_file w (simple_state now disruptions) old"

definition simple_title :: "pystr \<Rightarrow> pystr" where
  "simple_title notification_type =
     (if notification_type = asc ''new'' then
        [9888, 65039] @ asc '' NY st'' @ [246] @ asc ''rning p'' @ [229] @ asc '' linje ''
          @ LINE_TO_MONITOR @ asc '' ('' @ LINE_NAME @ asc '')''
      else if notification_type = asc ''resolved'' then
        [9989] @ asc '' St'' @ [246] @ asc ''rning l'' @ [246] @ asc ''st p'' @ [229]
          @ asc '' linje '' @ LINE_TO_MONITOR
      else
        [8505, 65039] @ asc '' St'' @ [246] @ asc ''rning p'' @ [229] @ asc '' linje ''
          @ LINE_TO_MONITOR)"

definition simple_format_one :: "nat \<Rightarrow> simple_disruption \<Rightarrow> pystr" where
  "simple_format_one idx d =
     str_nat idx @ asc ''. '' @ s_header d @ nl
     @ (if s_details d \<noteq> [] then asc ''   '' @ truncate_text 200 (s_details d) @ nl else [])
     @ nl"

fun simple_format_from :: "nat \<Rightarrow> simple_disruption list \<Rightarrow> pystr \<Rightarrow> pystr" where
  "simple_format_from idx [] message = message"
| "simple_format_from idx (d # ds) message =
     simple_format_from (Suc idx) ds (message @ simple_format_one idx d)"

definition simple_send_notification ::
  "mail_env \<Rightarrow> simple_disruption list \<Rightarrow> pystr \<Rightarrow> notification" where
  "simple_send_notification env disruptions notification_type =
     (let title = simple_title notification_type;
          message =
            (if disruptions \<noteq> [] then
               simple_format_from 1 disruptions (title @ nl @ nl) @ nl @ check_link
             else title @ nl @ nl @ all_resolved_text)
      in notified title message []
           (if notification_type \<in> {asc ''new'', asc ''resolved''}
            then send_email_notification env else Inr []))"

definition previous_count :: "'d state_dict state_file \<Rightarrow> int" where
  "previous_count file =
     (case st_count (load_previous_state file) of None \<Rightarrow> 0 | Some c \<Rightarrow> c)"

text \<open>The part of the simple variant's \<^verbatim>\<open>run\<close> after the fetch and the filter.\<close>

definition simple_reconcile ::
  "mail_env \<Rightarrow> write_outcome \<Rightarrow> pystr \<Rightarrow> simple_disruption state_dict state_file
     \<Rightarrow> simple_disruption list \<Rightarrow> simple_disruption cycle" where
  "simple_reconcile env w now file current_disruptions =
     (let current_count = int (length current_disruptions);
          (t, rel, n) =
            (if current_count > 0 then
               if previous_count file = 0 then
                 (New, current_disruptions,
                  Some (simple_send_notification env current_disruptions (asc ''new'')))
               else if current_count \<noteq> previous_count file then
                 (Updated, current_disruptions,
                  Some (simple_send_notification env current_disruptions (asc ''updated'')))
               else (Ongoing, current_disruptions, None)
             else
               if previous_count file > 0 then
                 (Resolved, [], Some (simple_send_notification env [] (asc ''resolved'')))
               else (NoDisruption, [], None))
      in \<lparr>transition = t, relevant = rel, sent = n,
          raised = raised_by n,
          new_state =
            (if raised_by n = None then Some (simple_state now current_disruptions) else None),
          file_after =
            (if raised_by n = None then simple_save_state w now current_disruptions file
             else file)\<rparr>)"

section \<open>The ultra-simple variant\<close>

text \<open>
  The result of \<^verbatim>\<open>check_for_disruptions\<close>: the flag and the lines under the key
  \<^verbatim>\<open>context\<close> (the key is absent when there is no disruption, which
  \<^verbatim>\<open>result.get("context")\<close> treats like an empty list).
\<close>

record check_result =
  has_disruption :: bool
  result_context :: "pystr list"

definition ultra_url :: pystr where
  "ultra_url = asc ''https://sl.se/reseplanering/trafiklaget''"

definition ultra_load_previous_state :: "unit state_dict state_file \<Rightarrow> unit state_dict" where
  "ultra_load_previous_state f =
     (case f of
        Missing \<Rightarrow> empty_state\<lparr>st_had_disruption := Some False\<rparr>
      | Unreadable \<Rightarrow> empty_state\<lparr>st_had_disruption := Some False\<rparr>
      | Stored s \<Rightarrow> s)"

definition ultra_state :: "pystr \<Rightarrow> bool \<Rightarrow> unit state_dict" where
  "ultra_state now has =
     \<lparr>st_timestamp = Some now,
      st_disruptions = None,
      st_alert_ids = None,
      st_count = None,
      st_had_disruption = Some has\<rparr>"

definition ultra_save_state ::
  "write_outcome \<Rightarrow> pystr \<Rightarrow> bool \<Rightarrow> unit state_dict state_file \<Rightarrow> unit state_dict state_file" where
  "ultra_save_state w now has old = write_state_file w (ultra_state now has) old"

fun context_lines :: "pystr list \<Rightarrow> pystr" where
  "context_lines [] = []"
| "context_lines (ctx # rest) = asc ''- '' @ ctx @ nl @ context_lines rest"

text \<open>
  The two e-mails composed in \<^verbatim>\<open>run\<close>; \<open>clock\<close> is
  \<^verbatim>\<open>datetime.now().strftime('%Y-%m-%d %H:%M:%S')\<close> as read while the body is built.
\<close>

definition ultra_new_subject :: pystr where
  "ultra_new_subject =
     [9888, 65039] @ asc '' St'' @ [246] @ asc ''rning p'' @ [229] @ asc '' linje ''
       @ LINE_TO_MONITOR @ asc '' ('' @ LINE_NAME @ asc '')''"

definition ultra_new_body :: "pystr \<Rightarrow> check_result \<Rightarrow> pystr" where
  "ultra_new_body clock result =
     asc ''St'' @ [246] @ asc ''rning uppt'' @ [228] @ asc ''ckt p'' @ [229] @ asc '' linje ''
       @ LINE_TO_MONITOR @ asc '' - '' @ LINE_NAME @ nl @ nl
     @ (if result_context result \<noteq> [] then
          asc ''Information fr'' @ [229] @ asc ''n SL:'' @ nl
            @ context_lines (result_context result) @ nl
        else [])
     @ asc ''Kontrollera: '' @ ultra_url @ nl @ nl
     @ asc ''Uppt'' @ [228] @ asc ''ckt: '' @ clock"

definition ultra_resolved_subject :: pystr where
  "ultra_resolved_subject =
     [9989] @ asc '' St'' @ [246] @ asc ''rning l'' @ [246] @ asc ''st - Linje '' @ LINE_TO_MONITOR"

definition ultra_resolved_body :: "pystr \<Rightarrow> pystr" where
  "ultra_resolved_body clock =
     asc ''St'' @ [246] @ asc ''rningen p'' @ [229] @ asc '' linje '' @ LINE_TO_MONITOR
       @ asc '' ('' @ LINE_NAME @ asc '') verkar vara l'' @ [246] @ asc ''st!'' @ nl @ nl
     @ asc ''Linje '' @ LINE_TO_MONITOR @ asc '' n'' @ [228] @ asc ''mns inte l'' @ [228]
       @ asc ''ngre bland st'' @ [246] @ asc ''rningar p'' @ [229] @ asc '' SL:s sida.'' @ nl @ nl
     @ asc ''Kontrollera: '' @ ultra_url @ nl @ nl
     @ asc ''L'' @ [246] @ asc ''st: '' @ clock"

record ultra_cycle =
  u_transition :: transition
  u_sent :: "notification option"
  u_raised :: "py_error option"
  u_new_state :: "unit state_dict option"
  u_file_after :: "unit state_dict state_file"

text \<open>The part of the ultra-simple variant's \<^verbatim>\<open>run\<close> after the page was checked.\<close>

definition ultra_reconcile ::
  "mail_env \<Rightarrow> write_outcome \<Rightarrow> pystr \<Rightarrow> pystr \<Rightarrow> unit state_dict state_file \<Rightarrow> check_result
     \<Rightarrow> ultra_cycle" where
  "ultra_reconcile env w clock now file result =
     (let had_disruption_before =
            (case st_had_disruption (ultra_load_previous_state file) of
               None \<Rightarrow> False | Some b \<Rightarrow> b);
          has_disruption_now = has_disruption result;
          (t, n) =
            (if has_disruption_now \<and> \<not> had_disruption_before then
               (New, Some (notified ultra_new_subject (ultra_new_body clock result) []
                             (send_email_notification env)))
             else if \<not> has_disruption_now \<and> had_disruption_before then
               (Resolved, Some (notified ultra_resolved_subject (ultra_resolved_body clock) []
                                  (send_email_notification env)))
             else if has_disruption_now then (Ongoing, None)
             else (NoDisruption, None))
      in \<lparr>u_transition = t, u_sent = n,
          u_raised = raised_by n,
          u_new_state =
            (if raised_by n = None then Some (ultra_state now has_disruption_now) else None),
          u_file_after =
            (if raised_by n = None then ultra_save_state w now has_disruption_now file
             else file)\<rparr>)"

section \<open>Derived notions used in the statements\<close>

text \<open>The channels on which a cycle attempted a delivery.\<close>

definition dispatched :: "notification option \<Rightarrow> channel list" where
  "dispatched n = (case n of None \<Rightarrow> [] | Some m \<Rightarrow> n_channels m)"

text \<open>
  Where a call of \<^verbatim>\<open>send_email_notification\<close> attempts a delivery: on the e-mail
  channel when the port parses and the credentials are set, nowhere otherwise.
\<close>

definition email_delivery :: "mail_env \<Rightarrow> channel list" where
  "email_delivery env = (if port_parses env \<and> email_configured env then [Email] else [])"

text \<open>How a call of \<^verbatim>\<open>send_email_notification\<close> ends: by the port's error or by returning.\<close>

definition email_error :: "mail_env \<Rightarrow> py_error option" where
  "email_error env = (if port_parses env then None else Some ValueError)"

text \<open>
  The truncation rule in the specification's words: details at or under the bound
  appear unmodified, longer details are cut at the bound and the ellipsis marker is
  appended.
\<close>

definition spec_truncated :: "nat \<Rightarrow> pystr \<Rightarrow> pystr" where
  "spec_truncated bound details =
     (if length details \<le> bound then details else take bound details @ asc ''...'')"

text \<open>The substring relation in its defining form.\<close>

definition occurs_in :: "'a list \<Rightarrow> 'a list \<Rightarrow> bool" where
  "occurs_in sub s = (\<exists>before after. s = before @ sub @ after)"

section \<open>Sample data\<close>

definition mail_on :: mail_env where
  "mail_on = \<lparr>port_parses = True, email_configured = True\<rparr>"

definition mail_off :: mail_env where
  "mail_off = \<lparr>port_parses = True, email_configured = False\<rparr>"

text \<open>The environment with the credentials set and \<^verbatim>\<open>SMTP_PORT\<close> set to the empty string.\<close>

definition mail_bad_port :: mail_env where
  "mail_bad_port = \<lparr>port_parses = False, email_configured = True\<rparr>"

definition sample_isoformat :: "nat \<Rightarrow> pystr option" where
  "sample_isoformat t =
     (if t \<le> 253402300799 then Some (asc ''2023-11-14T22:13:20'') else None)"

definition rec_A :: disruption where
  "rec_A = \<lparr>alert_id = asc ''A'', header = asc ''Delay'', description = asc ''Late buses'',
            active_periods = [\<lparr>p_start = asc ''2023-11-14T22:13:20'', p_end = []\<rparr>],
            cause = 0, effect = 0\<rparr>"

definition rec_B :: disruption where
  "rec_B = \<lparr>alert_id = asc ''B'', header = asc ''Detour'', description = replicate 301 97,
            active_periods = [], cause = 1, effect = 4\<rparr>"

definition state_with_ids :: "pystr list \<Rightarrow> disruption state_dict state_file" where
  "state_with_ids ids = Stored (empty_state\<lparr>st_alert_ids := Some ids\<rparr>)"

definition srec_1 :: simple_disruption where
  "srec_1 = \<lparr>s_header = asc ''Bus 29 late'', s_details = replicate 201 97,
             s_severity = Some 2, s_timestamp = asc ''2023-11-14T22:13:20''\<rparr>"

definition srec_2 :: simple_disruption where
  "srec_2 = \<lparr>s_header = asc ''Stop moved'', s_details = [],
             s_severity = None, s_timestamp = []\<rparr>"

definition state_with_count :: "int \<Rightarrow> simple_disruption state_dict state_file" where
  "state_with_count c = Stored (empty_state\<lparr>st_count := Some c\<rparr>)"

definition alert_129 :: alert where
  "alert_129 =
     \<lparr>informed_entity = [\<lparr>route_id = None\<rparr>, \<lparr>route_id = Some (asc ''129'')\<rparr>],
      header_text = Some [\<lparr>tr_text = asc ''Line 129 delayed'', tr_language = asc ''en''\<rparr>],
      description_text = None,
      active_period = [\<lparr>range_start = Some 1700000000, range_end = None\<rparr>],
      alert_cause = None,
      alert_effect = None\<rparr>"

definition alert_4 :: alert where
  "alert_4 =
     \<lparr>informed_entity = [\<lparr>route_id = Some (asc ''4'')\<rparr>],
      header_text = None,
      description_text = None,
      active_period = [],
      alert_cause = None,
      alert_effect = None\<rparr>"

definition feed_129 :: feed_message where
  "feed_129 =
     \<lparr>entity =
        [\<lparr>entity_id = asc ''alert-1'', entity_alert = Some alert_129\<rparr>,
         \<lparr>entity_id = asc ''alert-2'', entity_alert = Some alert_4\<rparr>,
         \<lparr>entity_id = asc ''trip-3'', entity_alert = None\<rparr>]\<rparr>"

definition disruption_129 :: disruption where
  "disruption_129 =
     \<lparr>alert_id = asc ''alert-1'', header = asc ''Line 129 delayed'', description = [],
      active_periods = [\<lparr>p_start = asc ''2023-11-14T22:13:20'', p_end = []\<rparr>],
      cause = 0, effect = 0\<rparr>"

definition ultra_had_disruption :: "unit state_dict state_file" where
  "ultra_had_disruption = Stored (ultra_state (asc ''2024-01-01T09:00:00'') True)"

definition page_clear :: check_result where
  "page_clear = \<lparr>has_disruption = False, result_context = []\<rparr>"

definition page_mentions :: check_result where
  "page_mentions = \<lparr>has_disruption = True, result_context = [asc ''linje 29 inst'' @ [228] @ asc ''lld'']\<rparr>"

section \<open>Properties of the GTFS variant\<close>

lemma reconcile_transition:
  "transition (reconcile ec w now file current) =
     (if current \<noteq> [] then
        if set (map alert_id current) - previous_ids file \<noteq> {} then New
        else if previous_ids file - set (map alert_id current) \<noteq> {} then Updated
        else Ongoing
      else if previous_ids file \<noteq> {} then Resolved else NoDisruption)"
  by (simp add: reconcile_def Let_def)

lemma reconcile_relevant:
  "relevant (reconcile ec w now file current) =
     (if current \<noteq> [] \<and> set (map alert_id current) - previous_ids file \<noteq> {}
      then filter (\<lambda>d. alert_id d \<in> set (map alert_id current) - previous_ids file) current
      else current)"
  by (simp add: reconcile_def Let_def)

lemma reconcile_sent:
  "sent (reconcile ec w now file current) =
     (case transition (reconcile ec w now file current) of
        New \<Rightarrow> Some (send_notification ec (relevant (reconcile ec w now file current)) (asc ''new''))
      | Updated \<Rightarrow> Some (send_notification ec current (asc ''updated''))
      | Ongoing \<Rightarrow> None
      | Resolved \<Rightarrow> Some (send_notification ec [] (asc ''resolved''))
      | NoDisruption \<Rightarrow> None)"
  by (simp add: reconcile_def Let_def)

lemma notified_fields:
  "n_title (notified t m before r) = t"
  "n_message (notified t m before r) = m"
  "n_channels (notified t m before r) = before @ (case r of Inl e \<Rightarrow> [] | Inr cs \<Rightarrow> cs)"
  "n_raised (notified t m before r) = (case r of Inl e \<Rightarrow> Some e | Inr cs \<Rightarrow> None)"
  by (simp_all add: notified_def split: sum.splits)

lemma email_call:
  "(case send_email_notification env of Inl e \<Rightarrow> [] | Inr cs \<Rightarrow> cs) = email_delivery env"
  "(case send_email_notification env of Inl e \<Rightarrow> Some e | Inr cs \<Rightarrow> None) = email_error env"
  by (simp_all add: send_email_notification_def email_delivery_def email_error_def)

lemma send_notification_raised:
  "n_raised (send_notification ec ds nt) =
     (if nt = asc ''new'' \<or> nt = asc ''updated'' then email_error ec else None)"
  by (simp add: send_notification_def Let_def notified_fields email_call)

lemma reconcile_raised:
  "raised (reconcile ec w now file current) =
     (case transition (reconcile ec w now file current) of
        New \<Rightarrow> email_error ec
      | Updated \<Rightarrow> email_error ec
      | Ongoing \<Rightarrow> None
      | Resolved \<Rightarrow> None
      | NoDisruption \<Rightarrow> None)"
  by (simp add: reconcile_def Let_def raised_by_def send_notification_raised asc_def)

lemma reconcile_new_state:
  "new_state (reconcile ec w now file current) =
     (if raised (reconcile ec w now file current) = None then Some (gtfs_state now current)
      else None)"
  by (simp add: reconcile_def Let_def split: prod.splits)

lemma reconcile_file_after:
  "file_after (reconcile ec w now file current) =
     (if raised (reconcile ec w now file current) = None then save_state w now current file
      else file)"
  by (simp add: reconcile_def Let_def split: prod.splits)

text \<open>
  Claim C1. Whenever the current list is non-empty and some current identifier is not
  among the previous ones, the cycle is classified New, the relevant records are exactly
  the current records whose identifier is new (in their order), and they are what the
  notification is composed from. Nothing is assumed about identifiers that disappeared,
  so New wins over Updated.
\<close>

theorem new_takes_precedence:
  assumes "current \<noteq> []"
    and "set (map alert_id current) - previous_ids file \<noteq> {}"
  shows "transition (reconcile ec w now file current) = New
       \<and> relevant (reconcile ec w now file current) =
           filter (\<lambda>d. alert_id d \<in> set (map alert_id current) - previous_ids file) current
       \<and> sent (reconcile ec w now file current) =
           Some (send_notification ec
                   (filter (\<lambda>d. alert_id d \<in> set (map alert_id current) - previous_ids file) current)
                   (asc ''new''))"
  using assms by (simp add: reconcile_transition reconcile_relevant reconcile_sent)

lemma previous_ids_state_with_ids [simp]: "previous_ids (state_with_ids ids) = set ids"
  by (simp add: previous_ids_def state_with_ids_def load_previous_state_def)

text \<open>
  An instance with previous identifiers A, C and current records A, B: B is new while C
  has disappeared, and the cycle is New with B alone as relevant record.
\<close>

theorem new_takes_precedence_witness:
  "[rec_A, rec_B] \<noteq> []
   \<and> set (map alert_id [rec_A, rec_B]) - previous_ids (state_with_ids [asc ''A'', asc ''C'']) \<noteq> {}
   \<and> previous_ids (state_with_ids [asc ''A'', asc ''C'']) - set (map alert_id [rec_A, rec_B]) \<noteq> {}
   \<and> transition (reconcile mail_on WriteOk (asc ''t'') (state_with_ids [asc ''A'', asc ''C'']) [rec_A, rec_B]) = New
   \<and> relevant (reconcile mail_on WriteOk (asc ''t'') (state_with_ids [asc ''A'', asc ''C'']) [rec_A, rec_B]) = [rec_B]"
proof -
  have h1: "[rec_A, rec_B] \<noteq> []" by simp
  have h2: "set (map alert_id [rec_A, rec_B]) - previous_ids (state_with_ids [asc ''A'', asc ''C'']) \<noteq> {}"
    by (simp add: rec_A_def rec_B_def asc_def)
  have h3: "previous_ids (state_with_ids [asc ''A'', asc ''C'']) - set (map alert_id [rec_A, rec_B]) \<noteq> {}"
    by (simp add: rec_A_def rec_B_def asc_def)
  show ?thesis
    using new_takes_precedence [OF h1 h2, of mail_on WriteOk "asc ''t''"] h2 h3
    by (simp add: rec_A_def rec_B_def asc_def)
qed

lemma reconcile_updated:
  assumes "current \<noteq> []"
    and "set (map alert_id current) - previous_ids file = {}"
    and "previous_ids file - set (map alert_id current) \<noteq> {}"
  shows "transition (reconcile ec w now file current) = Updated"
    and "relevant (reconcile ec w now file current) = current"
    and "sent (reconcile ec w now file current) = Some (send_notification ec current (asc ''updated''))"
  using assms by (simp_all add: reconcile_transition reconcile_relevant reconcile_sent)

text \<open>
  Claim C5. With a non-empty current list, no new identifier and some previous
  identifier gone, the set of current identifiers is non-empty and the cycle is
  classified Updated; the relevant records are all current records.
\<close>

theorem resolved_some_remaining_is_updated:
  assumes "current \<noteq> []"
    and "set (map alert_id current) - previous_ids file = {}"
    and "previous_ids file - set (map alert_id current) \<noteq> {}"
  shows "set (map alert_id current) \<noteq> {}
       \<and> transition (reconcile ec w now file current) = Updated
       \<and> relevant (reconcile ec w now file current) = current
       \<and> sent (reconcile ec w now file current) =
           Some (send_notification ec current (asc ''updated''))"
  using assms by (simp add: reconcile_updated)

text \<open>An instance with previous identifiers A, B and the current record A.\<close>

theorem resolved_some_remaining_is_updated_witness:
  "[rec_A] \<noteq> []
   \<and> set (map alert_id [rec_A]) - previous_ids (state_with_ids [asc ''A'', asc ''B'']) = {}
   \<and> previous_ids (state_with_ids [asc ''A'', asc ''B'']) - set (map alert_id [rec_A]) \<noteq> {}
   \<and> transition (reconcile mail_off WriteOk (asc ''t'') (state_with_ids [asc ''A'', asc ''B'']) [rec_A]) = Updated
   \<and> relevant (reconcile mail_off WriteOk (asc ''t'') (state_with_ids [asc ''A'', asc ''B'']) [rec_A]) = [rec_A]"
proof -
  have h1: "[rec_A] \<noteq> []" by simp
  have h2: "set (map alert_id [rec_A]) - previous_ids (state_with_ids [asc ''A'', asc ''B'']) = {}"
    by (simp add: rec_A_def asc_def)
  have h3: "previous_ids (state_with_ids [asc ''A'', asc ''B'']) - set (map alert_id [rec_A]) \<noteq> {}"
    by (simp add: rec_A_def asc_def)
  show ?thesis
    using resolved_some_remaining_is_updated [OF h1 h2 h3, of mail_off WriteOk "asc ''t''"] h2 h3
    by simp
qed

lemma send_notification_channels:
  "n_channels (send_notification ec ds nt) =
     Desktop # (if nt = asc ''new'' \<or> nt = asc ''updated'' then email_delivery ec else [])"
  by (simp add: send_notification_def Let_def notified_fields email_call)

lemma resolved_not_new_updated: "asc ''resolved'' \<noteq> asc ''new''" "asc ''resolved'' \<noteq> asc ''updated''"
  by (simp_all add: asc_def)

lemma previous_ids_Stored:
  "previous_ids (Stored s) = set (case st_alert_ids s of None \<Rightarrow> [] | Some ids \<Rightarrow> ids)"
  by (simp add: previous_ids_def load_previous_state_def)

lemma save_state_ok: "save_state WriteOk now current file = Stored (gtfs_state now current)"
  by (simp add: save_state_def write_state_file_def)

text \<open>
  Claim C6. With previous identifiers and an empty current list the cycle is classified
  Resolved with no relevant record, the resolved notification is sent on the channel
  used for resolution notices (the desktop) and no exception ends the cycle, the state
  built for saving has an empty identifier list, and once written the file holds that
  state and yields no previous identifier.
\<close>

theorem all_resolved:
  assumes "previous_ids file \<noteq> {}"
  shows "transition (reconcile ec w now file []) = Resolved
       \<and> relevant (reconcile ec w now file []) = []
       \<and> sent (reconcile ec w now file []) = Some (send_notification ec [] (asc ''resolved''))
       \<and> dispatched (sent (reconcile ec w now file [])) = [Desktop]
       \<and> raised (reconcile ec w now file []) = None
       \<and> new_state (reconcile ec w now file []) =
           Some \<lparr>st_timestamp = Some now, st_disruptions = Some [], st_alert_ids = Some [],
                 st_count = None, st_had_disruption = None\<rparr>
       \<and> file_after (reconcile ec WriteOk now file []) =
           Stored \<lparr>st_timestamp = Some now, st_disruptions = Some [], st_alert_ids = Some [],
                   st_count = None, st_had_disruption = None\<rparr>
       \<and> previous_ids (file_after (reconcile ec WriteOk now file [])) = {}"
  using assms
  by (simp add: reconcile_transition reconcile_relevant reconcile_sent reconcile_raised
      reconcile_new_state reconcile_file_after dispatched_def send_notification_channels
      resolved_not_new_updated save_state_ok previous_ids_Stored gtfs_state_def)

text \<open>An instance with the previous identifier X.\<close>

theorem all_resolved_witness:
  "previous_ids (state_with_ids [asc ''X'']) \<noteq> {}
   \<and> transition (reconcile mail_on WriteOk (asc ''t'') (state_with_ids [asc ''X'']) []) = Resolved
   \<and> dispatched (sent (reconcile mail_on WriteOk (asc ''t'') (state_with_ids [asc ''X'']) [])) = [Desktop]
   \<and> previous_ids (file_after (reconcile mail_on WriteOk (asc ''t'') (state_with_ids [asc ''X'']) [])) = {}"
proof -
  have h: "previous_ids (state_with_ids [asc ''X'']) \<noteq> {}" by simp
  show ?thesis
    using all_resolved [OF h, of mail_on WriteOk "asc ''t''"] h by blast
qed

section \<open>The state file, the simple and the ultra-simple variant\<close>

lemma simple_reconcile_transition:
  "transition (simple_reconcile ec w now file current) =
     (if current \<noteq> [] then
        if previous_count file = 0 then New
        else if int (length current) \<noteq> previous_count file then Updated
        else Ongoing
      else if previous_count file > 0 then Resolved else NoDisruption)"
  by (simp add: simple_reconcile_def Let_def)

lemma simple_reconcile_relevant:
  "relevant (simple_reconcile ec w now file current) = current"
  by (simp add: simple_reconcile_def Let_def)

lemma simple_reconcile_sent:
  "sent (simple_reconcile ec w now file current) =
     (case transition (simple_reconcile ec w now file current) of
        New \<Rightarrow> Some (simple_send_notification ec current (asc ''new''))
      | Updated \<Rightarrow> Some (simple_send_notification ec current (asc ''updated''))
      | Ongoing \<Rightarrow> None
      | Resolved \<Rightarrow> Some (simple_send_notification ec [] (asc ''resolved''))
      | NoDisruption \<Rightarrow> None)"
  by (simp add: simple_reconcile_def Let_def)

lemma simple_send_notification_raised:
  "n_raised (simple_send_notification ec ds nt) =
     (if nt = asc ''new'' \<or> nt = asc ''resolved'' then email_error ec else None)"
  by (simp add: simple_send_notification_def Let_def notified_fields email_call)

lemma simple_reconcile_raised:
  "raised (simple_reconcile ec w now file current) =
     (case transition (simple_reconcile ec w now file current) of
        New \<Rightarrow> email_error ec
      | Updated \<Rightarrow> None
      | Ongoing \<Rightarrow> None
      | Resolved \<Rightarrow> email_error ec
      | NoDisruption \<Rightarrow> None)"
  by (simp add: simple_reconcile_def Let_def raised_by_def simple_send_notification_raised
      asc_def)

lemma simple_reconcile_new_state:
  "new_state (simple_reconcile ec w now file current) =
     (if raised (simple_reconcile ec w now file current) = None
      then Some (simple_state now current) else None)"
  by (simp add: simple_reconcile_def Let_def split: prod.splits)

lemma simple_reconcile_file_after:
  "file_after (simple_reconcile ec w now file current) =
     (if raised (simple_reconcile ec w now file current) = None
      then simple_save_state w now current file else file)"
  by (simp add: simple_reconcile_def Let_def split: prod.splits)

lemma had_disruption_before_unreadable:
  "st_had_disruption (ultra_load_previous_state Missing) = Some False"
  "st_had_disruption (ultra_load_previous_state Unreadable) = Some False"
  by (simp_all add: ultra_load_previous_state_def empty_state_def)

lemma ultra_reconcile_transition:
  "u_transition (ultra_reconcile ec w clock now file result) =
     (let before = (case st_had_disruption (ultra_load_previous_state file) of
                      None \<Rightarrow> False | Some b \<Rightarrow> b)
      in if has_disruption result \<and> \<not> before then New
         else if \<not> has_disruption result \<and> before then Resolved
         else if has_disruption result then Ongoing else NoDisruption)"
  by (simp add: ultra_reconcile_def Let_def)

lemma ultra_reconcile_sent:
  "u_sent (ultra_reconcile ec w clock now file result) =
     (case u_transition (ultra_reconcile ec w clock now file result) of
        New \<Rightarrow> Some \<lparr>n_title = ultra_new_subject, n_message = ultra_new_body clock result,
                      n_channels = email_delivery ec, n_raised = email_error ec\<rparr>
      | Resolved \<Rightarrow> Some \<lparr>n_title = ultra_resolved_subject, n_message = ultra_resolved_body clock,
                           n_channels = email_delivery ec, n_raised = email_error ec\<rparr>
      | Updated \<Rightarrow> None
      | Ongoing \<Rightarrow> None
      | NoDisruption \<Rightarrow> None)"
  by (simp add: ultra_reconcile_def Let_def notified_def send_email_notification_def
      email_delivery_def email_error_def)

lemma previous_ids_unreadable:
  "previous_ids Missing = {}" "previous_ids Unreadable = {}"
  by (simp_all add: previous_ids_def load_previous_state_def empty_state_def)

lemma previous_count_unreadable:
  "previous_count Missing = 0" "previous_count Unreadable = 0"
  by (simp_all add: previous_count_def load_previous_state_def empty_state_def)

lemma simple_send_notification_channels:
  "n_channels (simple_send_notification ec ds nt) =
     (if nt = asc ''new'' \<or> nt = asc ''resolved'' then email_delivery ec else [])"
  by (simp add: simple_send_notification_def Let_def notified_fields email_call)

lemma type_names_distinct:
  "asc ''updated'' \<noteq> asc ''new''" "asc ''updated'' \<noteq> asc ''resolved''"
  "asc ''new'' \<noteq> asc ''resolved''" "asc ''new'' \<noteq> asc ''updated''"
  "asc ''resolved'' \<noteq> asc ''ongoing''"
  by (simp_all add: asc_def)

text \<open>
  A cycle that no exception ends builds the state made of the clock reading, the current
  records and their identifiers, and hands it to the write of the state file. After a
  write that succeeds the file holds that state; when the file cannot be opened it stays
  as it was, and when the dump fails it is left unreadable.
\<close>

lemma state_saved_when_cycle_returns:
  assumes "raised (reconcile ec w now file current) = None"
  shows "new_state (reconcile ec w now file current) =
           Some \<lparr>st_timestamp = Some now, st_disruptions = Some current,
                 st_alert_ids = Some (map alert_id current), st_count = None,
                 st_had_disruption = None\<rparr>"
    and "file_after (reconcile ec w now file current) =
           (case w of
              WriteOk \<Rightarrow> Stored (gtfs_state now current)
            | OpenFails \<Rightarrow> file
            | DumpFails \<Rightarrow> Unreadable)"
proof -
  from assms show "new_state (reconcile ec w now file current) =
           Some \<lparr>st_timestamp = Some now, st_disruptions = Some current,
                 st_alert_ids = Some (map alert_id current), st_count = None,
                 st_had_disruption = None\<rparr>"
    by (simp add: reconcile_new_state gtfs_state_def)
  from assms show "file_after (reconcile ec w now file current) =
           (case w of
              WriteOk \<Rightarrow> Stored (gtfs_state now current)
            | OpenFails \<Rightarrow> file
            | DumpFails \<Rightarrow> Unreadable)"
    by (simp add: reconcile_file_after save_state_def write_state_file_def)
qed

lemma written_state_ids:
  assumes "raised (reconcile ec WriteOk now file current) = None"
  shows "previous_ids (file_after (reconcile ec WriteOk now file current)) = alert_id ` set current"
  using assms
  by (simp add: reconcile_file_after save_state_ok previous_ids_Stored gtfs_state_def)

text \<open>
  No exception ends the cycle exactly when the port parses or the classification is one
  that sends no e-mail.
\<close>

lemma cycle_returns_iff:
  "raised (reconcile ec w now file current) = None \<longleftrightarrow>
     port_parses ec \<or> transition (reconcile ec w now file current) \<notin> {New, Updated}"
  by (cases "transition (reconcile ec w now file current)")
    (simp_all add: reconcile_raised email_error_def)

lemma save_skipped_iff:
  "new_state (reconcile ec w now file current) = None \<longleftrightarrow>
     \<not> port_parses ec \<and> transition (reconcile ec w now file current) \<in> {New, Updated}"
  using cycle_returns_iff [of ec w now "file" current]
  by (auto simp: reconcile_new_state)

text \<open>
  The simple and the ultra-simple variant call \<^verbatim>\<open>send_email_notification\<close> in their New
  and Resolved cycles, which the port's error ends in the same way.
\<close>

lemma ultra_reconcile_raised:
  "u_raised (ultra_reconcile ec w clock now file result) =
     (case u_transition (ultra_reconcile ec w clock now file result) of
        New \<Rightarrow> email_error ec
      | Resolved \<Rightarrow> email_error ec
      | Updated \<Rightarrow> None
      | Ongoing \<Rightarrow> None
      | NoDisruption \<Rightarrow> None)"
  by (simp add: ultra_reconcile_def Let_def raised_by_def notified_fields email_call)

lemma ultra_reconcile_new_state:
  "u_new_state (ultra_reconcile ec w clock now file result) =
     (if u_raised (ultra_reconcile ec w clock now file result) = None
      then Some (ultra_state now (has_disruption result)) else None)"
  by (simp add: ultra_reconcile_def Let_def split: prod.splits)

text \<open>
  Claim C7 asks that every cycle, whatever its classification, saves the state built
  from the current records. The code does not: \<^verbatim>\<open>send_email_notification\<close> converts
  \<^verbatim>\<open>SMTP_PORT\<close> outside its \<^verbatim>\<open>try\<close>, so with the variable set to the empty string a
  New cycle sends the desktop notification, is ended by the \<^verbatim>\<open>ValueError\<close> and never
  reaches \<^verbatim>\<open>save_state\<close>; the file keeps the identifier X although the current record
  is A. With a port that parses, the same cycle stores the new state.
\<close>

theorem save_skipped_when_port_does_not_parse:
  "transition (reconcile mail_bad_port WriteOk (asc ''t'') (state_with_ids [asc ''X'']) [rec_A]) = New
   \<and> dispatched (sent (reconcile mail_bad_port WriteOk (asc ''t'') (state_with_ids [asc ''X'']) [rec_A]))
       = [Desktop]
   \<and> raised (reconcile mail_bad_port WriteOk (asc ''t'') (state_with_ids [asc ''X'']) [rec_A])
       = Some ValueError
   \<and> new_state (reconcile mail_bad_port WriteOk (asc ''t'') (state_with_ids [asc ''X'']) [rec_A]) = None
   \<and> file_after (reconcile mail_bad_port WriteOk (asc ''t'') (state_with_ids [asc ''X'']) [rec_A])
       = state_with_ids [asc ''X'']
   \<and> previous_ids
        (file_after (reconcile mail_bad_port WriteOk (asc ''t'') (state_with_ids [asc ''X'']) [rec_A]))
       = {asc ''X''}
   \<and> alert_id ` set [rec_A] = {asc ''A''}
   \<and> asc ''X'' \<noteq> asc ''A''
   \<and> file_after (reconcile mail_on WriteOk (asc ''t'') (state_with_ids [asc ''X'']) [rec_A])
       = Stored (gtfs_state (asc ''t'') [rec_A])"
proof -
  have t: "transition (reconcile env WriteOk (asc ''t'') (state_with_ids [asc ''X'']) [rec_A]) = New"
    for env
    by (simp add: reconcile_transition rec_A_def asc_def)
  have r: "raised (reconcile mail_bad_port WriteOk (asc ''t'') (state_with_ids [asc ''X'']) [rec_A])
       = Some ValueError"
    by (simp add: reconcile_raised t email_error_def mail_bad_port_def)
  have r': "raised (reconcile mail_on WriteOk (asc ''t'') (state_with_ids [asc ''X'']) [rec_A]) = None"
    by (simp add: reconcile_raised t email_error_def mail_on_def)
  have d: "dispatched (sent (reconcile mail_bad_port WriteOk (asc ''t'') (state_with_ids [asc ''X'']) [rec_A]))
       = [Desktop]"
    by (simp add: reconcile_sent t dispatched_def send_notification_channels email_delivery_def
        mail_bad_port_def)
  have a: "alert_id ` set [rec_A] = {asc ''A''}" "asc ''X'' \<noteq> asc ''A''"
    by (simp_all add: rec_A_def asc_def)
  show ?thesis
    using t [of mail_bad_port] r r' d a
    by (simp add: reconcile_new_state reconcile_file_after save_state_ok)
qed

text \<open>Each of the five classifications occurs.\<close>

lemma every_transition_reachable:
  "transition (reconcile mail_on WriteOk (asc ''t'') Missing [rec_A]) = New"
  "transition (reconcile mail_on WriteOk (asc ''t'') (state_with_ids [asc ''A'', asc ''B'']) [rec_A]) = Updated"
  "transition (reconcile mail_on WriteOk (asc ''t'') (state_with_ids [asc ''A'']) [rec_A]) = Ongoing"
  "transition (reconcile mail_on WriteOk (asc ''t'') (state_with_ids [asc ''A'']) []) = Resolved"
  "transition (reconcile mail_on WriteOk (asc ''t'') Missing []) = NoDisruption"
  by (simp_all add: reconcile_transition previous_ids_unreadable rec_A_def asc_def)

text \<open>
  Claim C3, as stated, fails: \<^verbatim>\<open>save_state\<close> reads the clock, so two cycles on the same
  previous state and the same current records, five minutes apart, build different
  states.
\<close>

theorem idempotence_counterexample:
  "new_state (reconcile mail_on WriteOk (asc ''2024-01-01T10:00:00'') Missing [])
     \<noteq> new_state (reconcile mail_on WriteOk (asc ''2024-01-01T10:05:00'') Missing [])"
  by (simp add: reconcile_new_state reconcile_raised reconcile_transition
      previous_ids_unreadable gtfs_state_def asc_def)

text \<open>
  Claim C3, amended. Two cycles of the GTFS or of the simple variant on the same previous
  state and the same current records agree on the classification, the relevant records
  and the notification, and end by the same exception or by none, whatever the clock
  readings and the outcomes of the writes; the states they build differ in the timestamp
  only.
\<close>

theorem same_result_up_to_clock:
  "transition (reconcile ec w1 now1 file current) = transition (reconcile ec w2 now2 file current)
   \<and> relevant (reconcile ec w1 now1 file current) = relevant (reconcile ec w2 now2 file current)
   \<and> sent (reconcile ec w1 now1 file current) = sent (reconcile ec w2 now2 file current)
   \<and> raised (reconcile ec w1 now1 file current) = raised (reconcile ec w2 now2 file current)
   \<and> new_state (reconcile ec w1 now1 file current) =
       map_option (\<lambda>s. s\<lparr>st_timestamp := Some now1\<rparr>) (new_state (reconcile ec w2 now2 file current))
   \<and> transition (simple_reconcile ec w1 now1 sfile scurrent) =
       transition (simple_reconcile ec w2 now2 sfile scurrent)
   \<and> relevant (simple_reconcile ec w1 now1 sfile scurrent) =
       relevant (simple_reconcile ec w2 now2 sfile scurrent)
   \<and> sent (simple_reconcile ec w1 now1 sfile scurrent) =
       sent (simple_reconcile ec w2 now2 sfile scurrent)
   \<and> raised (simple_reconcile ec w1 now1 sfile scurrent) =
       raised (simple_reconcile ec w2 now2 sfile scurrent)
   \<and> new_state (simple_reconcile ec w1 now1 sfile scurrent) =
       map_option (\<lambda>s. s\<lparr>st_timestamp := Some now1\<rparr>)
         (new_state (simple_reconcile ec w2 now2 sfile scurrent))"
  by (simp add: reconcile_transition reconcile_relevant reconcile_sent reconcile_raised
      reconcile_new_state simple_reconcile_transition simple_reconcile_relevant
      simple_reconcile_sent simple_reconcile_raised simple_reconcile_new_state
      gtfs_state_def simple_state_def)

text \<open>
  Claim C8. When the state file is missing or cannot be read, loading the previous state
  returns the empty state (in the ultra-simple variant: no disruption before) instead of
  failing, and a cycle that then finds disruptions classifies them as New, with all
  current records relevant.
\<close>

theorem read_failure_is_no_previous_state:
  "(file \<in> {Missing, Unreadable} \<longrightarrow>
      load_previous_state file = empty_state
      \<and> (current \<noteq> [] \<longrightarrow>
            transition (reconcile ec w now file current) = New
            \<and> relevant (reconcile ec w now file current) = current))
   \<and> (sfile \<in> {Missing, Unreadable} \<longrightarrow>
      load_previous_state sfile = empty_state
      \<and> (scurrent \<noteq> [] \<longrightarrow>
            transition (simple_reconcile ec w now sfile scurrent) = New
            \<and> relevant (simple_reconcile ec w now sfile scurrent) = scurrent))
   \<and> (ufile \<in> {Missing, Unreadable} \<longrightarrow>
      ultra_load_previous_state ufile = empty_state\<lparr>st_had_disruption := Some False\<rparr>
      \<and> (has_disruption result \<longrightarrow>
            u_transition (ultra_reconcile ec w clock now ufile result) = New))"
proof -
  have gtfs: "transition (reconcile ec w now file current) = New
        \<and> relevant (reconcile ec w now file current) = current"
    if "file \<in> {Missing, Unreadable}" "current \<noteq> []"
  proof -
    from that have ids: "previous_ids file = {}"
      by (auto simp: previous_ids_unreadable)
    from that have ne: "set (map alert_id current) \<noteq> {}" by simp
    have "filter (\<lambda>d. alert_id d \<in> set (map alert_id current)) current = current"
      by (induction current) auto
    with that ids ne show ?thesis
      by (simp add: reconcile_transition reconcile_relevant)
  qed
  have simple: "transition (simple_reconcile ec w now sfile scurrent) = New
        \<and> relevant (simple_reconcile ec w now sfile scurrent) = scurrent"
    if "sfile \<in> {Missing, Unreadable}" "scurrent \<noteq> []"
    using that by (auto simp: simple_reconcile_transition simple_reconcile_relevant
        previous_count_unreadable)
  have ultra: "u_transition (ultra_reconcile ec w clock now ufile result) = New"
    if "ufile \<in> {Missing, Unreadable}" "has_disruption result"
    using that by (auto simp: ultra_reconcile_transition had_disruption_before_unreadable)
  have loads: "load_previous_state f = empty_state" if "f \<in> {Missing, Unreadable}"
    for f :: "'d state_dict state_file"
    using that by (auto simp: load_previous_state_def)
  have uload: "ultra_load_previous_state ufile = empty_state\<lparr>st_had_disruption := Some False\<rparr>"
    if "ufile \<in> {Missing, Unreadable}"
    using that by (auto simp: ultra_load_previous_state_def)
  show ?thesis
    using gtfs simple ultra loads [of "file"] loads [of "sfile"] uload by blast
qed

text \<open>Instances for the three variants, with an unreadable and a missing file.\<close>

theorem read_failure_is_no_previous_state_witness:
  "Unreadable \<in> {Missing, Unreadable} \<and> [rec_A, rec_B] \<noteq> []
   \<and> transition (reconcile mail_on WriteOk (asc ''t'') Unreadable [rec_A, rec_B]) = New
   \<and> relevant (reconcile mail_on WriteOk (asc ''t'') Unreadable [rec_A, rec_B]) = [rec_A, rec_B]
   \<and> Missing \<in> {Missing, Unreadable} \<and> [srec_1] \<noteq> []
   \<and> transition (simple_reconcile mail_on WriteOk (asc ''t'') Missing [srec_1]) = New
   \<and> has_disruption page_mentions
   \<and> u_transition (ultra_reconcile mail_on WriteOk (asc ''c'') (asc ''t'') Missing page_mentions) = New"
proof -
  have h: "Unreadable \<in> {Missing, Unreadable :: disruption state_dict state_file}"
    "[rec_A, rec_B] \<noteq> []"
    "Missing \<in> {Missing, Unreadable :: simple_disruption state_dict state_file}"
    "[srec_1] \<noteq> []"
    "Missing \<in> {Missing, Unreadable :: unit state_dict state_file}"
    "has_disruption page_mentions"
    by (simp_all add: page_mentions_def)
  show ?thesis
    using read_failure_is_no_previous_state [of Unreadable "[rec_A, rec_B]" mail_on WriteOk
        "asc ''t''" Missing "[srec_1]" Missing page_mentions "asc ''c''"] h
    by blast
qed

text \<open>
  Claim C2, as stated, fails on the simple variant: with one record counted before and
  two now the cycle is Updated, e-mail is configured, and nothing is dispatched.
\<close>

theorem dispatch_policy_counterexample:
  "transition (simple_reconcile mail_on WriteOk (asc ''t'') (state_with_count 1) [srec_1, srec_2]) = Updated
   \<and> dispatched (sent (simple_reconcile mail_on WriteOk (asc ''t'') (state_with_count 1) [srec_1, srec_2])) = []
   \<and> send_email_notification mail_on = Inr [Email]"
  by (simp add: simple_reconcile_transition simple_reconcile_sent dispatched_def
      simple_send_notification_channels type_names_distinct previous_count_def
      state_with_count_def load_previous_state_def send_email_notification_def mail_on_def)

text \<open>
  Claim C2, amended. GTFS variant: New and Updated go to the desktop and to e-mail when
  it is configured (and its port parses), Resolved goes to the desktop only, Ongoing and
  no disruption go nowhere. Simple and ultra-simple variant: New and Resolved go to
  e-mail when it is configured (and its port parses), every other classification goes
  nowhere.
\<close>

theorem dispatch_policy:
  "dispatched (sent (reconcile ec w now file current)) =
     (case transition (reconcile ec w now file current) of
        New \<Rightarrow> Desktop # email_delivery ec
      | Updated \<Rightarrow> Desktop # email_delivery ec
      | Resolved \<Rightarrow> [Desktop]
      | Ongoing \<Rightarrow> []
      | NoDisruption \<Rightarrow> [])
   \<and> dispatched (sent (simple_reconcile ec w now sfile scurrent)) =
     (case transition (simple_reconcile ec w now sfile scurrent) of
        New \<Rightarrow> email_delivery ec
      | Resolved \<Rightarrow> email_delivery ec
      | Updated \<Rightarrow> []
      | Ongoing \<Rightarrow> []
      | NoDisruption \<Rightarrow> [])
   \<and> dispatched (u_sent (ultra_reconcile ec w clock now ufile result)) =
     (case u_transition (ultra_reconcile ec w clock now ufile result) of
        New \<Rightarrow> email_delivery ec
      | Resolved \<Rightarrow> email_delivery ec
      | Updated \<Rightarrow> []
      | Ongoing \<Rightarrow> []
      | NoDisruption \<Rightarrow> [])"
proof (intro conjI)
  show "dispatched (sent (reconcile ec w now file current)) =
     (case transition (reconcile ec w now file current) of
        New \<Rightarrow> Desktop # email_delivery ec
      | Updated \<Rightarrow> Desktop # email_delivery ec
      | Resolved \<Rightarrow> [Desktop]
      | Ongoing \<Rightarrow> []
      | NoDisruption \<Rightarrow> [])"
    by (cases "transition (reconcile ec w now file current)")
      (simp_all add: reconcile_sent dispatched_def send_notification_channels type_names_distinct
        resolved_not_new_updated)
next
  show "dispatched (sent (simple_reconcile ec w now sfile scurrent)) =
     (case transition (simple_reconcile ec w now sfile scurrent) of
        New \<Rightarrow> email_delivery ec
      | Resolved \<Rightarrow> email_delivery ec
      | Updated \<Rightarrow> []
      | Ongoing \<Rightarrow> []
      | NoDisruption \<Rightarrow> [])"
    by (cases "transition (simple_reconcile ec w now sfile scurrent)")
      (simp_all add: simple_reconcile_sent dispatched_def simple_send_notification_channels
        type_names_distinct)
next
  show "dispatched (u_sent (ultra_reconcile ec w clock now ufile result)) =
     (case u_transition (ultra_reconcile ec w clock now ufile result) of
        New \<Rightarrow> email_delivery ec
      | Resolved \<Rightarrow> email_delivery ec
      | Updated \<Rightarrow> []
      | Ongoing \<Rightarrow> []
      | NoDisruption \<Rightarrow> [])"
    by (cases "u_transition (ultra_reconcile ec w clock now ufile result)")
      (simp_all add: ultra_reconcile_sent dispatched_def)
qed

section \<open>The line filter\<close>

lemma occurs_inI: "s = before @ sub @ after \<Longrightarrow> occurs_in sub s"
  by (auto simp: occurs_in_def)

lemma occurs_in_embed: "occurs_in sub s \<Longrightarrow> occurs_in sub (p @ s @ q)"
proof -
  assume "occurs_in sub s"
  then obtain b a where "s = b @ sub @ a" by (auto simp: occurs_in_def)
  then have "p @ s @ q = (p @ b) @ sub @ (a @ q)" by simp
  then show ?thesis by (rule occurs_inI)
qed

lemma startswith_iff: "startswith s p \<longleftrightarrow> (\<exists>r. s = p @ r)"
  by (induction s p rule: startswith.induct) auto

lemma py_in_iff: "py_in sub s \<longleftrightarrow> occurs_in sub s"
proof (induction s)
  case Nil
  show ?case by (auto simp: occurs_in_def)
next
  case (Cons c cs)
  have "occurs_in sub (c # cs) \<longleftrightarrow> (\<exists>r. c # cs = sub @ r) \<or> occurs_in sub cs"
  proof
    assume "occurs_in sub (c # cs)"
    then obtain b a where ba: "c # cs = b @ sub @ a" by (auto simp: occurs_in_def)
    show "(\<exists>r. c # cs = sub @ r) \<or> occurs_in sub cs"
    proof (cases b)
      case Nil
      with ba show ?thesis by auto
    next
      case (Cons x b')
      with ba have "cs = b' @ sub @ a" by simp
      then show ?thesis by (auto simp: occurs_in_def)
    qed
  next
    assume "(\<exists>r. c # cs = sub @ r) \<or> occurs_in sub cs"
    then show "occurs_in sub (c # cs)"
    proof
      assume "\<exists>r. c # cs = sub @ r"
      then obtain r where "c # cs = [] @ sub @ r" by auto
      then show ?thesis by (rule occurs_inI)
    next
      assume "occurs_in sub cs"
      then have "occurs_in sub ([c] @ cs @ [])" by (rule occurs_in_embed)
      then show ?thesis by simp
    qed
  qed
  with Cons show ?case by (simp add: startswith_iff)
qed

lemma affects_line_29_iff:
  "affects_line_29 ies \<longleftrightarrow>
     (\<exists>ie \<in> set ies. \<exists>r. route_id ie = Some r \<and> occurs_in LINE_TO_MONITOR r)"
proof (induction ies)
  case Nil
  show ?case by simp
next
  case (Cons ie rest)
  have self: "occurs_in LINE_TO_MONITOR LINE_TO_MONITOR"
    by (rule occurs_inI [of _ "[]" _ "[]"]) simp
  show ?case
  proof (cases "route_id ie")
    case None
    with Cons show ?thesis by simp
  next
    case (Some r)
    with Cons self show ?thesis by (auto simp: py_in_iff)
  qed
qed

lemma make_disruption_alert_id:
  "make_disruption isoformat e a = Inr d \<Longrightarrow> alert_id d = entity_id e"
  by (auto simp: make_disruption_def Let_def split: sum.splits)

lemma filter_entities_ids:
  "filter_entities isoformat es = Inr ds \<Longrightarrow>
     map alert_id ds =
       map entity_id
         (filter (\<lambda>e. \<exists>a. entity_alert e = Some a \<and> affects_line_29 (informed_entity a)) es)"
proof (induction es arbitrary: ds)
  case Nil
  then show ?case by simp
next
  case (Cons e es)
  show ?case
  proof (cases "entity_alert e")
    case None
    with Cons show ?thesis by simp
  next
    case (Some a)
    show ?thesis
    proof (cases "affects_line_29 (informed_entity a)")
      case False
      with Some Cons show ?thesis by simp
    next
      case True
      with Some Cons.prems obtain d rest where
        d: "make_disruption isoformat e a = Inr d"
        and rest: "filter_entities isoformat es = Inr rest"
        and ds: "ds = d # rest"
        by (auto split: sum.splits)
      from Cons.IH [OF rest] make_disruption_alert_id [OF d] Some True ds
      show ?thesis by simp
    qed
  qed
qed

lemma convert_periods_returns:
  "\<forall>t. isoformat t \<noteq> None \<Longrightarrow> \<exists>ps. convert_periods isoformat rs = Inr ps"
proof (induction rs)
  case Nil
  show ?case by simp
next
  case (Cons r rs)
  have b: "\<exists>s. convert_bound isoformat x = Inr s" for x
  proof (cases x)
    case None
    then show ?thesis by (simp add: convert_bound_def)
  next
    case (Some t)
    from Cons.prems obtain y where "isoformat t = Some y" by auto
    with Some show ?thesis by (simp add: convert_bound_def)
  qed
  from b [of "range_start r"] b [of "range_end r"] Cons
  show ?case by auto
qed

text \<open>When no timestamp conversion raises, the filter returns a list.\<close>

lemma filter_entities_returns:
  "\<forall>t. isoformat t \<noteq> None \<Longrightarrow> \<exists>ds. filter_entities isoformat es = Inr ds"
proof (induction es)
  case Nil
  show ?case by simp
next
  case (Cons e es)
  have m: "\<exists>d. make_disruption isoformat e a = Inr d" for a
    using convert_periods_returns [OF Cons.prems, of "active_period a"]
    by (auto simp: make_disruption_def Let_def)
  from Cons obtain ds where "filter_entities isoformat es = Inr ds" by auto
  with m show ?case by (auto split: option.splits) (metis sum.simps(6))
qed

lemma filter_feed_129:
  "filter_line_29 sample_isoformat (Some feed_129) = Inr [disruption_129]"
  by (simp add: filter_line_29_def feed_129_def alert_129_def alert_4_def disruption_129_def
      make_disruption_def convert_bound_def sample_isoformat_def LINE_TO_MONITOR_def asc_def)

text \<open>
  Claim C10. An alert affects the line exactly when one of its informed entities has a
  route identifier in which the text 29 occurs; the records returned by the filter are,
  in order, those of the feed entities that carry such an alert. In particular the feed
  whose only matching route is 129 yields a record, and the cycle on it is classified
  New and notified on the desktop and by e-mail.
\<close>

theorem line_filter_is_substring_test:
  "(affects_line_29 (informed_entity a) \<longleftrightarrow>
      (\<exists>ie \<in> set (informed_entity a). \<exists>r. route_id ie = Some r \<and> occurs_in LINE_TO_MONITOR r))
   \<and> (filter_line_29 isoformat (Some feed) = Inr ds \<longrightarrow>
        map alert_id ds =
          map entity_id
            (filter (\<lambda>e. \<exists>a. entity_alert e = Some a \<and> affects_line_29 (informed_entity a))
               (entity feed)))
   \<and> (\<exists>c. run sample_isoformat mail_on WriteOk (asc ''t'') Missing (Some feed_129) = Completed c
           \<and> transition c = New
           \<and> relevant c = [disruption_129]
           \<and> dispatched (sent c) = [Desktop, Email])"
proof (intro conjI)
  show "affects_line_29 (informed_entity a) \<longleftrightarrow>
      (\<exists>ie \<in> set (informed_entity a). \<exists>r. route_id ie = Some r \<and> occurs_in LINE_TO_MONITOR r)"
    by (rule affects_line_29_iff)
next
  show "filter_line_29 isoformat (Some feed) = Inr ds \<longrightarrow>
        map alert_id ds =
          map entity_id
            (filter (\<lambda>e. \<exists>a. entity_alert e = Some a \<and> affects_line_29 (informed_entity a))
               (entity feed))"
    by (auto simp: filter_line_29_def dest: filter_entities_ids)
next
  have "transition (reconcile mail_on WriteOk (asc ''t'') Missing [disruption_129]) = New"
    by (simp add: reconcile_transition previous_ids_unreadable)
  moreover have "relevant (reconcile mail_on WriteOk (asc ''t'') Missing [disruption_129]) = [disruption_129]"
    by (simp add: reconcile_relevant previous_ids_unreadable)
  moreover have "dispatched (sent (reconcile mail_on WriteOk (asc ''t'') Missing [disruption_129])) = [Desktop, Email]"
    by (simp add: reconcile_sent reconcile_transition previous_ids_unreadable dispatched_def
        send_notification_channels email_delivery_def mail_on_def)
  moreover have "raised (reconcile mail_on WriteOk (asc ''t'') Missing [disruption_129]) = None"
    by (simp add: reconcile_raised reconcile_transition previous_ids_unreadable email_error_def
        mail_on_def)
  ultimately show "\<exists>c. run sample_isoformat mail_on WriteOk (asc ''t'') Missing (Some feed_129) = Completed c
           \<and> transition c = New
           \<and> relevant c = [disruption_129]
           \<and> dispatched (sent c) = [Desktop, Email]"
    by (simp add: run_def filter_feed_129 Let_def)
qed

text \<open>The alert for route 129, which is not line 29, passes the filter.\<close>

theorem line_filter_is_substring_test_witness:
  "affects_line_29 (informed_entity alert_129)
   \<and> (\<exists>ie \<in> set (informed_entity alert_129). route_id ie = Some (asc ''129'')
         \<and> occurs_in LINE_TO_MONITOR (asc ''129''))
   \<and> asc ''129'' \<noteq> LINE_TO_MONITOR
   \<and> filter_line_29 sample_isoformat (Some feed_129) = Inr [disruption_129]
   \<and> map alert_id [disruption_129] =
       map entity_id
         (filter (\<lambda>e. \<exists>a. entity_alert e = Some a \<and> affects_line_29 (informed_entity a))
            (entity feed_129))"
proof -
  have a: "affects_line_29 (informed_entity alert_129)"
    by (simp add: alert_129_def LINE_TO_MONITOR_def asc_def)
  have o: "occurs_in LINE_TO_MONITOR (asc ''129'')"
    by (rule occurs_inI [of _ "asc ''1''" _ "[]"]) (simp add: LINE_TO_MONITOR_def asc_def)
  have m: "\<exists>ie \<in> set (informed_entity alert_129). route_id ie = Some (asc ''129'')
         \<and> occurs_in LINE_TO_MONITOR (asc ''129'')"
    using o by (simp add: alert_129_def)
  have n: "asc ''129'' \<noteq> LINE_TO_MONITOR"
    by (simp add: LINE_TO_MONITOR_def asc_def)
  show ?thesis
    using line_filter_is_substring_test [of alert_129 sample_isoformat feed_129 "[disruption_129]"]
      a m n filter_feed_129
    by blast
qed

section \<open>The resolved notification\<close>

lemma occurs_in_code: "occurs_in sub s = py_in sub s"
  by (simp add: py_in_iff)

text \<open>
  Claim C4, as stated, fails on the ultra-simple variant: the body of its resolved
  e-mail ends with the time of the run, so two runs five minutes apart on the same
  state and the same page send different notifications.
\<close>

theorem resolved_text_counterexample:
  "u_transition (ultra_reconcile mail_on WriteOk (asc ''2024-01-01 10:00:00'') (asc ''t'')
       ultra_had_disruption page_clear) = Resolved
   \<and> u_sent (ultra_reconcile mail_on WriteOk (asc ''2024-01-01 10:00:00'') (asc ''t'')
       ultra_had_disruption page_clear)
     \<noteq> u_sent (ultra_reconcile mail_on WriteOk (asc ''2024-01-01 10:05:00'') (asc ''t'')
       ultra_had_disruption page_clear)"
  by (simp add: ultra_reconcile_transition ultra_reconcile_sent ultra_had_disruption_def
      page_clear_def ultra_load_previous_state_def ultra_state_def ultra_resolved_body_def
      asc_def)

lemma send_notification_resolved:
  "send_notification ec [] (asc ''resolved'') =
     \<lparr>n_title = [9989] @ asc '' St'' @ [246] @ asc ''rning l'' @ [246] @ asc ''st p'' @ [229]
          @ asc '' linje '' @ LINE_TO_MONITOR,
      n_message = [9989] @ asc '' St'' @ [246] @ asc ''rning l'' @ [246] @ asc ''st p'' @ [229]
          @ asc '' linje '' @ LINE_TO_MONITOR @ nl @ nl @ all_resolved_text,
      n_channels = [Desktop], n_raised = None\<rparr>"
  by (simp add: send_notification_def Let_def gtfs_title_def type_names_distinct
      resolved_not_new_updated notified_def)

lemma simple_send_notification_resolved:
  "simple_send_notification ec [] (asc ''resolved'') =
     \<lparr>n_title = [9989] @ asc '' St'' @ [246] @ asc ''rning l'' @ [246] @ asc ''st p'' @ [229]
          @ asc '' linje '' @ LINE_TO_MONITOR,
      n_message = [9989] @ asc '' St'' @ [246] @ asc ''rning l'' @ [246] @ asc ''st p'' @ [229]
          @ asc '' linje '' @ LINE_TO_MONITOR @ nl @ nl @ all_resolved_text,
      n_channels = email_delivery ec, n_raised = email_error ec\<rparr>"
  by (simp add: simple_send_notification_def Let_def simple_title_def type_names_distinct
      resolved_not_new_updated notified_def send_email_notification_def email_delivery_def
      email_error_def)

lemma resolved_texts_name_the_line:
  "occurs_in LINE_TO_MONITOR
     ([9989] @ asc '' St'' @ [246] @ asc ''rning l'' @ [246] @ asc ''st p'' @ [229]
        @ asc '' linje '' @ LINE_TO_MONITOR)"
  "occurs_in LINE_NAME all_resolved_text"
  "occurs_in LINE_TO_MONITOR ultra_resolved_subject"
  "occurs_in LINE_TO_MONITOR (ultra_resolved_body clock)"
proof -
  show "occurs_in LINE_TO_MONITOR
     ([9989] @ asc '' St'' @ [246] @ asc ''rning l'' @ [246] @ asc ''st p'' @ [229]
        @ asc '' linje '' @ LINE_TO_MONITOR)"
    by (rule occurs_inI [of _ _ _ "[]"]) simp
  show "occurs_in LINE_NAME all_resolved_text"
    by (simp add: occurs_in_code LINE_NAME_def all_resolved_text_def asc_def)
  show "occurs_in LINE_TO_MONITOR ultra_resolved_subject"
    unfolding ultra_resolved_subject_def
    by (rule occurs_inI [of _ _ _ "[]"]) simp
  have "ultra_resolved_body clock =
      (asc ''St'' @ [246] @ asc ''rningen p'' @ [229] @ asc '' linje'' @ asc '' '') @ LINE_TO_MONITOR
       @ (asc '' ('' @ LINE_NAME @ asc '') verkar vara l'' @ [246] @ asc ''st!'' @ nl @ nl
     @ asc ''Linje '' @ LINE_TO_MONITOR @ asc '' n'' @ [228] @ asc ''mns inte l'' @ [228]
       @ asc ''ngre bland st'' @ [246] @ asc ''rningar p'' @ [229] @ asc '' SL:s sida.'' @ nl @ nl
     @ asc ''Kontrollera: '' @ ultra_url @ nl @ nl
     @ asc ''L'' @ [246] @ asc ''st: '' @ clock)"
    by (simp add: ultra_resolved_body_def asc_def)
  then show "occurs_in LINE_TO_MONITOR (ultra_resolved_body clock)"
    by (rule occurs_inI)
qed

text \<open>
  Claim C4, amended. In the GTFS and the simple variant the resolved notification for an
  empty record list is one fixed title and body, whatever the previous state, the clock
  and the outcome of the write. In the ultra-simple variant the subject is fixed and the
  body is a fixed text followed by the clock reading of the run. Every title and body
  names the line. Where the notification goes, and whether the e-mail call ends it by an
  exception, depends on the mail settings alone.
\<close>

theorem resolved_text_fixed_up_to_clock:
  "send_notification ec [] (asc ''resolved'') =
     \<lparr>n_title = [9989] @ asc '' St'' @ [246] @ asc ''rning l'' @ [246] @ asc ''st p'' @ [229]
          @ asc '' linje '' @ LINE_TO_MONITOR,
      n_message = [9989] @ asc '' St'' @ [246] @ asc ''rning l'' @ [246] @ asc ''st p'' @ [229]
          @ asc '' linje '' @ LINE_TO_MONITOR @ nl @ nl @ all_resolved_text,
      n_channels = [Desktop], n_raised = None\<rparr>
   \<and> simple_send_notification ec [] (asc ''resolved'') =
     \<lparr>n_title = [9989] @ asc '' St'' @ [246] @ asc ''rning l'' @ [246] @ asc ''st p'' @ [229]
          @ asc '' linje '' @ LINE_TO_MONITOR,
      n_message = [9989] @ asc '' St'' @ [246] @ asc ''rning l'' @ [246] @ asc ''st p'' @ [229]
          @ asc '' linje '' @ LINE_TO_MONITOR @ nl @ nl @ all_resolved_text,
      n_channels = email_delivery ec, n_raised = email_error ec\<rparr>
   \<and> (transition (reconcile ec w now file current) = Resolved \<longrightarrow>
        sent (reconcile ec w now file current) = Some (send_notification ec [] (asc ''resolved'')))
   \<and> (transition (simple_reconcile ec w now sfile scurrent) = Resolved \<longrightarrow>
        sent (simple_reconcile ec w now sfile scurrent) =
          Some (simple_send_notification ec [] (asc ''resolved'')))
   \<and> (u_transition (ultra_reconcile ec w clock now ufile result) = Resolved \<longrightarrow>
        u_sent (ultra_reconcile ec w clock now ufile result) =
          Some \<lparr>n_title = ultra_resolved_subject,
                n_message = ultra_resolved_body clock,
                n_channels = email_delivery ec, n_raised = email_error ec\<rparr>)
   \<and> occurs_in LINE_TO_MONITOR
        ([9989] @ asc '' St'' @ [246] @ asc ''rning l'' @ [246] @ asc ''st p'' @ [229]
           @ asc '' linje '' @ LINE_TO_MONITOR)
   \<and> occurs_in LINE_NAME all_resolved_text
   \<and> occurs_in LINE_TO_MONITOR ultra_resolved_subject
   \<and> occurs_in LINE_TO_MONITOR (ultra_resolved_body clock)"
  using send_notification_resolved [of ec] simple_send_notification_resolved [of ec]
    resolved_texts_name_the_line
  by (simp add: reconcile_sent simple_reconcile_sent ultra_reconcile_sent)

text \<open>A resolved cycle of each variant.\<close>

theorem resolved_text_fixed_up_to_clock_witness:
  "transition (reconcile mail_on WriteOk (asc ''t1'') (state_with_ids [asc ''X'']) []) = Resolved
   \<and> sent (reconcile mail_on WriteOk (asc ''t1'') (state_with_ids [asc ''X'']) []) =
       Some (send_notification mail_on [] (asc ''resolved''))
   \<and> transition (simple_reconcile mail_on WriteOk (asc ''t1'') (state_with_count 2) []) = Resolved
   \<and> sent (simple_reconcile mail_on WriteOk (asc ''t1'') (state_with_count 2) []) =
       Some (simple_send_notification mail_on [] (asc ''resolved''))
   \<and> u_transition (ultra_reconcile mail_on WriteOk (asc ''c'') (asc ''t1'') ultra_had_disruption page_clear)
       = Resolved
   \<and> u_sent (ultra_reconcile mail_on WriteOk (asc ''c'') (asc ''t1'') ultra_had_disruption page_clear) =
       Some \<lparr>n_title = ultra_resolved_subject,
             n_message = ultra_resolved_body (asc ''c''),
             n_channels = email_delivery mail_on, n_raised = email_error mail_on\<rparr>"
proof -
  have h1: "transition (reconcile mail_on WriteOk (asc ''t1'') (state_with_ids [asc ''X'']) []) = Resolved"
    by (simp add: reconcile_transition)
  have h2: "transition (simple_reconcile mail_on WriteOk (asc ''t1'') (state_with_count 2) []) = Resolved"
    by (simp add: simple_reconcile_transition previous_count_def state_with_count_def
        load_previous_state_def)
  have h3: "u_transition (ultra_reconcile mail_on WriteOk (asc ''c'') (asc ''t1'') ultra_had_disruption page_clear)
       = Resolved"
    by (simp add: ultra_reconcile_transition ultra_had_disruption_def page_clear_def
        ultra_load_previous_state_def ultra_state_def)
  show ?thesis
    using resolved_text_fixed_up_to_clock [of mail_on WriteOk "asc ''t1''" "state_with_ids [asc ''X'']"
        "[]" "state_with_count 2" "[]" "asc ''c''" ultra_had_disruption page_clear] h1 h2 h3
    by blast
qed

section \<open>The body of a notification\<close>

lemma truncate_text_spec: "truncate_text bound s = spec_truncated bound s"
  by (auto simp: truncate_text_def spec_truncated_def ellipsis_def)

lemma format_periods_concat:
  "format_periods ps =
     concat (map (\<lambda>p. (if p_start p = [] then [] else asc ''   Fr'' @ [229] @ asc ''n: '' @ p_start p @ nl)
                      @ (if p_end p = [] then [] else asc ''   Till: '' @ p_end p @ nl)) ps)"
  by (induction ps) auto

lemma format_from_acc: "format_from idx ds message = message @ format_from idx ds []"
proof (induction ds arbitrary: idx message)
  case Nil
  show ?case by simp
next
  case (Cons d ds)
  from Cons [of "Suc idx" "message @ format_one idx d"] Cons [of "Suc idx" "format_one idx d"]
  show ?case by simp
qed

lemma format_from_block:
  "d \<in> set ds \<Longrightarrow> \<exists>k. occurs_in (format_one k d) (format_from idx ds message)"
proof (induction ds arbitrary: idx message)
  case Nil
  then show ?case by simp
next
  case (Cons x xs)
  show ?case
  proof (cases "d = x")
    case True
    have "format_from idx (x # xs) message = message @ format_one idx d @ format_from (Suc idx) xs []"
      using format_from_acc [of "Suc idx" xs "message @ format_one idx x"] True by simp
    then have "occurs_in (format_one idx d) (format_from idx (x # xs) message)"
      by (rule occurs_inI)
    then show ?thesis ..
  next
    case False
    with Cons.prems have "d \<in> set xs" by simp
    from Cons.IH [OF this, of "Suc idx" "message @ format_one idx x"]
    show ?thesis by simp
  qed
qed

lemma occurs_in_trans: "occurs_in a b \<Longrightarrow> occurs_in b c \<Longrightarrow> occurs_in a c"
proof -
  assume "occurs_in a b" "occurs_in b c"
  then obtain p q r s where "b = p @ a @ q" "c = r @ b @ s" by (auto simp: occurs_in_def)
  then have "c = (r @ p) @ a @ (q @ s)" by simp
  then show ?thesis by (rule occurs_inI)
qed

lemma format_one_block:
  "occurs_in
     (asc ''   '' @ header d @ nl
      @ (if description d = [] then [] else asc ''   '' @ spec_truncated 300 (description d) @ nl)
      @ concat (map (\<lambda>p. (if p_start p = [] then [] else asc ''   Fr'' @ [229] @ asc ''n: '' @ p_start p @ nl)
                      @ (if p_end p = [] then [] else asc ''   Till: '' @ p_end p @ nl))
                  (active_periods d)))
     (format_one k d)"
proof -
  have "format_one k d =
     (nl @ [128308] @ asc '' St'' @ [246] @ asc ''rning '' @ str_nat k @ asc '':'' @ nl)
     @ (asc ''   '' @ header d @ nl
      @ (if description d = [] then [] else asc ''   '' @ spec_truncated 300 (description d) @ nl)
      @ concat (map (\<lambda>p. (if p_start p = [] then [] else asc ''   Fr'' @ [229] @ asc ''n: '' @ p_start p @ nl)
                      @ (if p_end p = [] then [] else asc ''   Till: '' @ p_end p @ nl))
                  (active_periods d)))
     @ nl"
    by (simp add: format_one_def truncate_text_spec format_periods_concat)
  then show ?thesis by (rule occurs_inI)
qed

lemma send_notification_message:
  "ds \<noteq> [] \<Longrightarrow> occurs_in (format_disruption_message ds) (n_message (send_notification ec ds nt))"
proof -
  assume "ds \<noteq> []"
  then have "n_message (send_notification ec ds nt) =
      (gtfs_title nt @ nl) @ format_disruption_message ds @ (nl @ check_link)"
    by (simp add: send_notification_def Let_def notified_fields)
  then show ?thesis by (rule occurs_inI)
qed

lemma simple_format_from_acc:
  "simple_format_from idx ds message = message @ simple_format_from idx ds []"
proof (induction ds arbitrary: idx message)
  case Nil
  show ?case by simp
next
  case (Cons d ds)
  from Cons [of "Suc idx" "message @ simple_format_one idx d"]
    Cons [of "Suc idx" "simple_format_one idx d"]
  show ?case by simp
qed

lemma simple_format_from_block:
  "d \<in> set ds \<Longrightarrow> \<exists>k. occurs_in (simple_format_one k d) (simple_format_from idx ds message)"
proof (induction ds arbitrary: idx message)
  case Nil
  then show ?case by simp
next
  case (Cons x xs)
  show ?case
  proof (cases "d = x")
    case True
    have "simple_format_from idx (x # xs) message =
        message @ simple_format_one idx d @ simple_format_from (Suc idx) xs []"
      using simple_format_from_acc [of "Suc idx" xs "message @ simple_format_one idx x"] True
      by simp
    then have "occurs_in (simple_format_one idx d) (simple_format_from idx (x # xs) message)"
      by (rule occurs_inI)
    then show ?thesis ..
  next
    case False
    with Cons.prems have "d \<in> set xs" by simp
    from Cons.IH [OF this, of "Suc idx" "message @ simple_format_one idx x"]
    show ?thesis by simp
  qed
qed

lemma simple_format_one_block:
  "occurs_in
     (s_header d @ nl
      @ (if s_details d = [] then [] else asc ''   '' @ spec_truncated 200 (s_details d) @ nl))
     (simple_format_one k d)"
proof -
  have "simple_format_one k d =
     (str_nat k @ asc ''. '')
     @ (s_header d @ nl
        @ (if s_details d = [] then [] else asc ''   '' @ spec_truncated 200 (s_details d) @ nl))
     @ nl"
    by (simp add: simple_format_one_def truncate_text_spec)
  then show ?thesis by (rule occurs_inI)
qed

lemma simple_send_notification_message:
  "ds \<noteq> [] \<Longrightarrow>
     occurs_in (simple_format_from 1 ds (simple_title nt @ nl @ nl))
       (n_message (simple_send_notification ec ds nt))"
proof -
  assume "ds \<noteq> []"
  then have "n_message (simple_send_notification ec ds nt) =
      [] @ simple_format_from 1 ds (simple_title nt @ nl @ nl) @ (nl @ check_link)"
    by (simp add: simple_send_notification_def Let_def notified_fields)
  then show ?thesis by (rule occurs_inI)
qed

text \<open>
  Claim C9. For every relevant record of a New cycle, the body of the notification
  contains, as one block, the header line, then (when the record has details) the
  details line, where details of at most 300 characters (GTFS variant; 200 in the simple
  variant) appear unmodified and longer ones are cut at that bound and followed by the
  ellipsis, then (GTFS variant) for each active period a start line when the start is
  present and an end line when the end is present.
\<close>

theorem new_body_lists_each_record:
  "(transition (reconcile ec w now file current) = New
      \<and> d \<in> set (relevant (reconcile ec w now file current)) \<longrightarrow>
      (\<exists>n. sent (reconcile ec w now file current) = Some n
         \<and> occurs_in
             (asc ''   '' @ header d @ nl
              @ (if description d = [] then []
                 else asc ''   '' @ spec_truncated 300 (description d) @ nl)
              @ concat (map (\<lambda>p. (if p_start p = [] then []
                                  else asc ''   Fr'' @ [229] @ asc ''n: '' @ p_start p @ nl)
                               @ (if p_end p = [] then []
                                  else asc ''   Till: '' @ p_end p @ nl))
                          (active_periods d)))
             (n_message n)))
   \<and> (transition (simple_reconcile ec w now sfile scurrent) = New
      \<and> sd \<in> set (relevant (simple_reconcile ec w now sfile scurrent)) \<longrightarrow>
      (\<exists>n. sent (simple_reconcile ec w now sfile scurrent) = Some n
         \<and> occurs_in
             (s_header sd @ nl
              @ (if s_details sd = [] then []
                 else asc ''   '' @ spec_truncated 200 (s_details sd) @ nl))
             (n_message n)))"
proof (intro conjI impI)
  assume a: "transition (reconcile ec w now file current) = New
      \<and> d \<in> set (relevant (reconcile ec w now file current))"
  let ?rel = "relevant (reconcile ec w now file current)"
  from a have s: "sent (reconcile ec w now file current) = Some (send_notification ec ?rel (asc ''new''))"
    by (simp add: reconcile_sent)
  from a have ne: "?rel \<noteq> []" by auto
  from a obtain k where "occurs_in (format_one k d) (format_disruption_message ?rel)"
    unfolding format_disruption_message_def using format_from_block by blast
  with format_one_block [of d k] send_notification_message [OF ne, of ec "asc ''new''"]
  have "occurs_in
             (asc ''   '' @ header d @ nl
              @ (if description d = [] then []
                 else asc ''   '' @ spec_truncated 300 (description d) @ nl)
              @ concat (map (\<lambda>p. (if p_start p = [] then []
                                  else asc ''   Fr'' @ [229] @ asc ''n: '' @ p_start p @ nl)
                               @ (if p_end p = [] then []
                                  else asc ''   Till: '' @ p_end p @ nl))
                          (active_periods d)))
             (n_message (send_notification ec ?rel (asc ''new'')))"
    by (blast intro: occurs_in_trans)
  with s show "\<exists>n. sent (reconcile ec w now file current) = Some n
         \<and> occurs_in
             (asc ''   '' @ header d @ nl
              @ (if description d = [] then []
                 else asc ''   '' @ spec_truncated 300 (description d) @ nl)
              @ concat (map (\<lambda>p. (if p_start p = [] then []
                                  else asc ''   Fr'' @ [229] @ asc ''n: '' @ p_start p @ nl)
                               @ (if p_end p = [] then []
                                  else asc ''   Till: '' @ p_end p @ nl))
                          (active_periods d)))
             (n_message n)"
    by blast
next
  assume a: "transition (simple_reconcile ec w now sfile scurrent) = New
      \<and> sd \<in> set (relevant (simple_reconcile ec w now sfile scurrent))"
  from a have s: "sent (simple_reconcile ec w now sfile scurrent) =
      Some (simple_send_notification ec scurrent (asc ''new''))"
    by (simp add: simple_reconcile_sent)
  from a have mem: "sd \<in> set scurrent" by (simp add: simple_reconcile_relevant)
  then have ne: "scurrent \<noteq> []" by auto
  from mem obtain k where "occurs_in (simple_format_one k sd)
      (simple_format_from 1 scurrent (simple_title (asc ''new'') @ nl @ nl))"
    using simple_format_from_block by blast
  with simple_format_one_block [of sd k] simple_send_notification_message [OF ne, of "asc ''new''" ec]
  have "occurs_in
             (s_header sd @ nl
              @ (if s_details sd = [] then []
                 else asc ''   '' @ spec_truncated 200 (s_details sd) @ nl))
             (n_message (simple_send_notification ec scurrent (asc ''new'')))"
    by (blast intro: occurs_in_trans)
  with s show "\<exists>n. sent (simple_reconcile ec w now sfile scurrent) = Some n
         \<and> occurs_in
             (s_header sd @ nl
              @ (if s_details sd = [] then []
                 else asc ''   '' @ spec_truncated 200 (s_details sd) @ nl))
             (n_message n)"
    by blast
qed

text \<open>
  Records with details of 301 and of 201 characters, cut to 300 and to 200, and a record
  whose short details stay as they are.
\<close>

theorem new_body_lists_each_record_witness:
  "transition (reconcile mail_on WriteOk (asc ''t'') Missing [rec_A, rec_B]) = New
   \<and> rec_B \<in> set (relevant (reconcile mail_on WriteOk (asc ''t'') Missing [rec_A, rec_B]))
   \<and> length (description rec_B) = 301
   \<and> spec_truncated 300 (description rec_B) = replicate 300 97 @ asc ''...''
   \<and> spec_truncated 300 (description rec_A) = description rec_A
   \<and> (\<exists>n. sent (reconcile mail_on WriteOk (asc ''t'') Missing [rec_A, rec_B]) = Some n
         \<and> occurs_in
             (asc ''   '' @ header rec_B @ nl
              @ (if description rec_B = [] then []
                 else asc ''   '' @ spec_truncated 300 (description rec_B) @ nl)
              @ concat (map (\<lambda>p. (if p_start p = [] then []
                                  else asc ''   Fr'' @ [229] @ asc ''n: '' @ p_start p @ nl)
                               @ (if p_end p = [] then []
                                  else asc ''   Till: '' @ p_end p @ nl))
                          (active_periods rec_B)))
             (n_message n))
   \<and> transition (simple_reconcile mail_on WriteOk (asc ''t'') Missing [srec_1, srec_2]) = New
   \<and> srec_1 \<in> set (relevant (simple_reconcile mail_on WriteOk (asc ''t'') Missing [srec_1, srec_2]))
   \<and> spec_truncated 200 (s_details srec_1) = replicate 200 97 @ asc ''...''
   \<and> (\<exists>n. sent (simple_reconcile mail_on WriteOk (asc ''t'') Missing [srec_1, srec_2]) = Some n
         \<and> occurs_in
             (s_header srec_1 @ nl
              @ (if s_details srec_1 = [] then []
                 else asc ''   '' @ spec_truncated 200 (s_details srec_1) @ nl))
             (n_message n))"
proof -
  have h1: "transition (reconcile mail_on WriteOk (asc ''t'') Missing [rec_A, rec_B]) = New"
    by (simp add: reconcile_transition previous_ids_unreadable)
  have h2: "rec_B \<in> set (relevant (reconcile mail_on WriteOk (asc ''t'') Missing [rec_A, rec_B]))"
    by (simp add: reconcile_relevant previous_ids_unreadable)
  have h3: "transition (simple_reconcile mail_on WriteOk (asc ''t'') Missing [srec_1, srec_2]) = New"
    by (simp add: simple_reconcile_transition previous_count_unreadable)
  have h4: "srec_1 \<in> set (relevant (simple_reconcile mail_on WriteOk (asc ''t'') Missing [srec_1, srec_2]))"
    by (simp add: simple_reconcile_relevant)
  have t1: "length (description rec_B) = 301"
    "spec_truncated 300 (description rec_B) = replicate 300 97 @ asc ''...''"
    "spec_truncated 300 (description rec_A) = description rec_A"
    "spec_truncated 200 (s_details srec_1) = replicate 200 97 @ asc ''...''"
    by (simp_all add: rec_A_def rec_B_def srec_1_def spec_truncated_def asc_def)
  show ?thesis
    using new_body_lists_each_record [of mail_on WriteOk "asc ''t''" Missing "[rec_A, rec_B]" rec_B
        Missing "[srec_1, srec_2]" srec_1] h1 h2 h3 h4 t1
    by blast
qed

end
